theory Spec2Isabelle
  imports Complex_Main
begin

section \<open>Python string helpers used by the scanner\<close>

text \<open>
  Strings are lists of characters; a character stands for the code point of the same
  number (the range below 256). The helpers follow the \<open>str\<close> methods the source
  calls: \<open>strip\<close>, \<open>lstrip\<close>, \<open>rstrip\<close>, \<open>startswith\<close>, \<open>endswith\<close>, \<open>split\<close>,
  \<open>replace\<close> and \<open>splitlines\<close>.
\<close>

definition dquote :: char where
  "dquote = CHR 0x22"

definition is_space :: "char \<Rightarrow> bool" where
  \<comment> \<open>the characters \<open>str.isspace\<close> accepts, which \<open>strip()\<close> and the pattern \<open>\\s\<close> remove\<close>
  "is_space c \<longleftrightarrow>
     c \<in> {CHR 0x09, CHR 0x0A, CHR 0x0B, CHR 0x0C, CHR 0x0D,
          CHR 0x1C, CHR 0x1D, CHR 0x1E, CHR 0x1F, CHR 0x20, CHR 0x85, CHR 0xA0}"

definition is_linebreak :: "char \<Rightarrow> bool" where
  \<comment> \<open>the line boundaries of \<open>str.splitlines\<close>\<close>
  "is_linebreak c \<longleftrightarrow>
     c \<in> {CHR 0x0A, CHR 0x0B, CHR 0x0C, CHR 0x0D, CHR 0x1C, CHR 0x1D, CHR 0x1E, CHR 0x85}"

definition lstrip_chars :: "string \<Rightarrow> string \<Rightarrow> string" where
  \<comment> \<open>\<open>s.lstrip(chars)\<close>\<close>
  "lstrip_chars chars s = dropWhile (\<lambda>c. c \<in> set chars) s"

definition rstrip_chars :: "string \<Rightarrow> string \<Rightarrow> string" where
  \<comment> \<open>\<open>s.rstrip(chars)\<close>\<close>
  "rstrip_chars chars s = rev (dropWhile (\<lambda>c. c \<in> set chars) (rev s))"

definition strip :: "string \<Rightarrow> string" where
  \<comment> \<open>\<open>s.strip()\<close>\<close>
  "strip s = rev (dropWhile is_space (rev (dropWhile is_space s)))"

definition startswith :: "string \<Rightarrow> string \<Rightarrow> bool" where
  "startswith s p \<longleftrightarrow> take (length p) s = p"

definition endswith :: "string \<Rightarrow> string \<Rightarrow> bool" where
  "endswith s p \<longleftrightarrow> startswith (rev s) (rev p)"

fun split_on :: "char \<Rightarrow> string \<Rightarrow> string list" where
  \<comment> \<open>\<open>s.split(c)\<close> for a one-character separator: never the empty list\<close>
  "split_on c [] = [[]]"
| "split_on c (x # xs) =
     (if x = c then [] # split_on c xs
      else (case split_on c xs of
              [] \<Rightarrow> [[x]]
            | p # ps \<Rightarrow> (x # p) # ps))"

definition remove_spaces :: "string \<Rightarrow> string" where
  \<comment> \<open>\<open>s.replace(" ", "")\<close>\<close>
  "remove_spaces s = filter (\<lambda>c. c \<noteq> CHR '' '') s"

fun splitlines_from :: "string \<Rightarrow> string \<Rightarrow> string list" where
  \<comment> \<open>the first argument is the current line, reversed\<close>
  "splitlines_from cur [] = (if cur = [] then [] else [rev cur])"
| "splitlines_from cur [c] =
     (if is_linebreak c then [rev cur] else [rev (c # cur)])"
| "splitlines_from cur (c # d # cs) =
     (if c = CHR 0x0D \<and> d = CHR 0x0A then rev cur # splitlines_from [] cs
      else if is_linebreak c then rev cur # splitlines_from [] (d # cs)
      else splitlines_from (c # cur) (d # cs))"

definition splitlines :: "string \<Rightarrow> string list" where
  "splitlines s = splitlines_from [] s"

section \<open>The version-range library\<close>

text \<open>
  \<open>Version\<close> and \<open>NpmSpec\<close> come from the third-party package \<open>semantic_version\<close>.
  The scanner only constructs a range, constructs a version and tests membership, so
  the library is a parameter: two constructors that may fail (\<open>None\<close> is the raised
  \<open>ValueError\<close>) and the membership test.
\<close>

record ('s, 'v) semver =
  NpmSpec :: "string \<Rightarrow> 's option"
  Version :: "string \<Rightarrow> 'v option"
  spec_contains :: "'s \<Rightarrow> 'v \<Rightarrow> bool"

section \<open>The vulnerability catalog\<close>

record rule =
  rule_range :: string
  rule_severity :: string
  rule_cve_id :: "string option"
  rule_description :: "string option"

type_synonym catalog = "string \<rightharpoonup> rule list"

definition is_version_in_range :: "('s, 'v) semver \<Rightarrow> string \<Rightarrow> string \<Rightarrow> bool" where
  \<comment> \<open>\<open>VulnerabilityDatabase._is_version_in_range\<close>: every exception becomes \<open>False\<close>\<close>
  "is_version_in_range lib version range_expr =
     (case NpmSpec lib range_expr of
        None \<Rightarrow> False
      | Some spec \<Rightarrow>
          (let normalized_version = lstrip_chars ''^~'' version
           in case Version lib normalized_version of
                None \<Rightarrow> False
              | Some v \<Rightarrow> spec_contains lib spec v))"

fun collect_matching :: "('s, 'v) semver \<Rightarrow> string \<Rightarrow> rule list \<Rightarrow> rule list \<Rightarrow> rule list" where
  \<comment> \<open>the \<open>for vuln in self.vulnerabilities[package_name]\<close> loop, appending to the result\<close>
  "collect_matching lib version acc [] = acc"
| "collect_matching lib version acc (vuln # rest) =
     collect_matching lib version
       (if is_version_in_range lib version (rule_range vuln) then acc @ [vuln] else acc) rest"

definition is_vulnerable :: "('s, 'v) semver \<Rightarrow> catalog \<Rightarrow> string \<Rightarrow> string \<Rightarrow> rule list" where
  \<comment> \<open>\<open>VulnerabilityDatabase.is_vulnerable\<close>\<close>
  "is_vulnerable lib vulnerabilities package_name version =
     (case vulnerabilities package_name of
        None \<Rightarrow> []
      | Some rules \<Rightarrow> collect_matching lib version [] rules)"


subsection \<open>A version-range library after the specification\<close>

text \<open>
  Modelled from the spec: the package \<open>semantic_version\<close> is not part of the
  repository. The specification fixes the range semantics the scanner relies on:
  comparators joined by \<open>||\<close> are alternatives, whitespace-separated comparators of one
  alternative must all hold, the operators are \<open>=\<close>, \<open><\<close>, \<open><=\<close>, \<open>>\<close>, \<open>>=\<close>, and a
  bare version means equality. A version is \<open>MAJOR.MINOR.PATCH\<close> in decimal digits.
  This instance is used to run the scanner on concrete inputs.
\<close>

type_synonym version_triple = "nat \<times> nat \<times> nat"

datatype comparator_op = OpEq | OpLt | OpLe | OpGt | OpGe

type_synonym comparator = "comparator_op \<times> version_triple"

definition is_digit :: "char \<Rightarrow> bool" where
  "is_digit c \<longleftrightarrow> c \<in> set ''0123456789''"

definition digit_value :: "char \<Rightarrow> nat" where
  "digit_value c = of_char c - 48"

definition parse_number :: "string \<Rightarrow> nat option" where
  "parse_number s =
     (if s \<noteq> [] \<and> list_all is_digit s
      then Some (foldl (\<lambda>n c. 10 * n + digit_value c) 0 s) else None)"

definition version_of_string :: "string \<Rightarrow> version_triple option" where
  "version_of_string s =
     (case split_on CHR ''.'' s of
        [a, b, c] \<Rightarrow>
          (case (parse_number a, parse_number b, parse_number c) of
             (Some x, Some y, Some z) \<Rightarrow> Some (x, y, z)
           | _ \<Rightarrow> None)
      | _ \<Rightarrow> None)"

fun version_less :: "version_triple \<Rightarrow> version_triple \<Rightarrow> bool" where
  "version_less (a, b, c) (x, y, z) \<longleftrightarrow> a < x \<or> (a = x \<and> (b < y \<or> (b = y \<and> c < z)))"

fun comparator_holds :: "version_triple \<Rightarrow> comparator \<Rightarrow> bool" where
  "comparator_holds v (OpEq, w) \<longleftrightarrow> v = w"
| "comparator_holds v (OpLt, w) \<longleftrightarrow> version_less v w"
| "comparator_holds v (OpLe, w) \<longleftrightarrow> version_less v w \<or> v = w"
| "comparator_holds v (OpGt, w) \<longleftrightarrow> version_less w v"
| "comparator_holds v (OpGe, w) \<longleftrightarrow> version_less w v \<or> v = w"

definition comparator_of_string :: "string \<Rightarrow> comparator option" where
  "comparator_of_string s =
     (if startswith s ''>='' then map_option (Pair OpGe) (version_of_string (drop 2 s))
      else if startswith s ''<='' then map_option (Pair OpLe) (version_of_string (drop 2 s))
      else if startswith s ''>'' then map_option (Pair OpGt) (version_of_string (drop 1 s))
      else if startswith s ''<'' then map_option (Pair OpLt) (version_of_string (drop 1 s))
      else if startswith s ''='' then map_option (Pair OpEq) (version_of_string (drop 1 s))
      else map_option (Pair OpEq) (version_of_string s))"

fun words_from :: "string \<Rightarrow> string \<Rightarrow> string list" where
  \<comment> \<open>the whitespace-separated words; the first argument is the current word, reversed\<close>
  "words_from cur [] = (if cur = [] then [] else [rev cur])"
| "words_from cur (c # cs) =
     (if is_space c then (if cur = [] then words_from [] cs else rev cur # words_from [] cs)
      else words_from (c # cur) cs)"

fun split_bars :: "string \<Rightarrow> string \<Rightarrow> string list" where
  \<comment> \<open>the alternatives between \<open>||\<close>; the first argument is the current one, reversed\<close>
  "split_bars cur [] = [rev cur]"
| "split_bars cur [c] = [rev (c # cur)]"
| "split_bars cur (c # d # cs) =
     (if c = CHR ''|'' \<and> d = CHR ''|'' then rev cur # split_bars [] cs
      else split_bars (c # cur) (d # cs))"

definition comparator_set_of_string :: "string \<Rightarrow> comparator list option" where
  "comparator_set_of_string s =
     (case words_from [] s of
        [] \<Rightarrow> None
      | ws \<Rightarrow> those (map comparator_of_string ws))"

definition range_of_string :: "string \<Rightarrow> comparator list list option" where
  "range_of_string s = those (map comparator_set_of_string (split_bars [] s))"

definition satisfies :: "comparator list list \<Rightarrow> version_triple \<Rightarrow> bool" where
  "satisfies alternatives v \<longleftrightarrow> list_ex (list_all (comparator_holds v)) alternatives"

definition spec_semver :: "(comparator list list, version_triple) semver" where
  "spec_semver =
     \<lparr>NpmSpec = range_of_string, Version = version_of_string, spec_contains = satisfies\<rparr>"

section \<open>Decoded JSON documents\<close>

text \<open>
  The value \<open>json.loads\<close> returns: \<open>None\<close>, a bool, an int, a float, a str, a list
  or a dict. A dict is its list of items in insertion order. Floats are the finite
  ones, taken as real numbers (\<open>NaN\<close> and the infinities, which \<open>json.loads\<close> also
  accepts, have no counterpart here).
\<close>

datatype json =
    JNull
  | JBool bool
  | JInt int
  | JFloat real
  | JStr string
  | JArr "json list"
  | JObj "(string \<times> json) list"

text \<open>
  \<open>json.loads\<close> and the builtin \<open>str\<close> belong to Python, not to the repository: they
  are parameters. \<open>json_loads\<close> returns \<open>None\<close> where \<open>json.loads\<close> raises;
  \<open>py_str\<close> is only applied to values that are neither a str nor a dict.
\<close>

record python =
  json_loads :: "string \<Rightarrow> json option"
  py_str :: "json \<Rightarrow> string"

fun truthy :: "json \<Rightarrow> bool" where
  \<comment> \<open>the truth value Python gives a decoded value in \<open>if\<close>, \<open>and\<close>, \<open>or\<close>, \<open>not\<close>\<close>
  "truthy JNull = False"
| "truthy (JBool b) = b"
| "truthy (JInt i) = (i \<noteq> 0)"
| "truthy (JFloat r) = (r \<noteq> 0)"
| "truthy (JStr s) = (s \<noteq> [])"
| "truthy (JArr xs) = (xs \<noteq> [])"
| "truthy (JObj kvs) = (kvs \<noteq> [])"

fun hashable :: "json \<Rightarrow> bool" where
  \<comment> \<open>a list or a dict as a dict key raises \<open>TypeError\<close>\<close>
  "hashable (JArr xs) = False"
| "hashable (JObj kvs) = False"
| "hashable v = True"

fun num_value :: "json \<Rightarrow> real option" where
  "num_value (JBool b) = Some (if b then 1 else 0)"
| "num_value (JInt i) = Some (of_int i)"
| "num_value (JFloat r) = Some r"
| "num_value v = None"

definition key_eq :: "json \<Rightarrow> json \<Rightarrow> bool" where
  \<comment> \<open>\<open>==\<close> on dict keys: numbers and bools compare by value (\<open>True == 1 == 1.0\<close>)\<close>
  "key_eq a b =
     (case (num_value a, num_value b) of
        (Some x, Some y) \<Rightarrow> x = y
      | (None, None) \<Rightarrow> a = b
      | _ \<Rightarrow> False)"

subsection \<open>The \<open>dependencies\<close> dict of the JSON scan\<close>

type_synonym pydict = "(json \<times> json) list"

fun dict_get :: "pydict \<Rightarrow> json \<Rightarrow> json option" where
  "dict_get [] k = None"
| "dict_get ((k', v) # d) k = (if key_eq k' k then Some v else dict_get d k)"

definition dict_contains :: "pydict \<Rightarrow> json \<Rightarrow> bool" where
  \<comment> \<open>\<open>k in d\<close>\<close>
  "dict_contains d k \<longleftrightarrow> dict_get d k \<noteq> None"

fun dict_set :: "pydict \<Rightarrow> json \<Rightarrow> json \<Rightarrow> pydict" where
  \<comment> \<open>\<open>d[k] = v\<close>: an existing key keeps its place, a new key goes last\<close>
  "dict_set [] k v = [(k, v)]"
| "dict_set ((k', v') # d) k v =
     (if key_eq k' k then (k', v) # d else (k', v') # dict_set d k v)"

definition dict_update :: "pydict \<Rightarrow> (string \<times> json) list \<Rightarrow> pydict" where
  \<comment> \<open>\<open>d.update(deps)\<close> for a decoded object \<open>deps\<close>\<close>
  "dict_update d deps = foldl (\<lambda>d (k, v). dict_set d (JStr k) v) d deps"


section \<open>Findings\<close>

record finding =
  package :: string
  version :: string
  clean_version :: string
  severity :: string
  cve_id :: "string option"
  description :: "string option"
  vulnerable_range :: string

definition make_finding :: "string \<Rightarrow> string \<Rightarrow> string \<Rightarrow> rule \<Rightarrow> finding" where
  "make_finding package_name version_raw clean vuln =
     \<lparr>package = package_name, version = version_raw, clean_version = clean,
      severity = rule_severity vuln, cve_id = rule_cve_id vuln,
      description = rule_description vuln, vulnerable_range = rule_range vuln\<rparr>"

section \<open>The JSON-family scan\<close>

definition manifest_keys :: "string list" where
  "manifest_keys =
     [''dependencies'', ''devDependencies'', ''peerDependencies'', ''optionalDependencies'']"

definition manifest_step :: "(string \<times> json) list \<Rightarrow> pydict \<Rightarrow> string \<Rightarrow> pydict" where
  \<comment> \<open>\<open>deps = data.get(key)\<close>, then \<open>dependencies.update(deps)\<close> if it is a dict\<close>
  "manifest_step data dependencies key =
     (case map_of data key of
        Some (JObj deps) \<Rightarrow> dict_update dependencies deps
      | _ \<Rightarrow> dependencies)"

definition manifest_level :: "(string \<times> json) list \<Rightarrow> pydict" where
  \<comment> \<open>step 1: the loop over the four keys, in this order\<close>
  "manifest_level data = foldl (manifest_step data) [] manifest_keys"

definition fill_lock_v1 :: "(string \<times> json) list \<Rightarrow> pydict \<Rightarrow> pydict" where
  \<comment> \<open>step 2: the entries of \<open>data.get("dependencies")\<close> whose name is not yet present\<close>
  "fill_lock_v1 data dependencies =
     (case map_of data ''dependencies'' of
        Some (JObj lock_deps) \<Rightarrow>
          foldl (\<lambda>d (pkg, info). if dict_contains d (JStr pkg) then d else dict_set d (JStr pkg) info)
            dependencies lock_deps
      | _ \<Rightarrow> dependencies)"

fun fill_lock_v2_loop :: "pydict \<Rightarrow> (string \<times> json) list \<Rightarrow> pydict option" where
  \<comment> \<open>step 3, the loop over \<open>lock_pkgs.items()\<close>; \<open>None\<close> is the \<open>TypeError\<close> of an
      unhashable \<open>name\<close> in \<open>name not in dependencies\<close>\<close>
  "fill_lock_v2_loop d [] = Some d"
| "fill_lock_v2_loop d ((path, info) # rest) =
     (case info of
        JObj entry \<Rightarrow>
          (let name = (case map_of entry ''name'' of Some n \<Rightarrow> n | None \<Rightarrow> JNull)
           in if truthy name then
                (if hashable name
                 then fill_lock_v2_loop (if dict_contains d name then d else dict_set d name info) rest
                 else None)
              else fill_lock_v2_loop d rest)
      | _ \<Rightarrow> fill_lock_v2_loop d rest)"

definition fill_lock_v2 :: "(string \<times> json) list \<Rightarrow> pydict \<Rightarrow> pydict option" where
  "fill_lock_v2 data dependencies =
     (case map_of data ''packages'' of
        Some (JObj lock_pkgs) \<Rightarrow> fill_lock_v2_loop dependencies lock_pkgs
      | _ \<Rightarrow> Some dependencies)"

definition merge_dependencies :: "(string \<times> json) list \<Rightarrow> pydict option" where
  \<comment> \<open>steps 1 to 3 of \<open>_scan_json_dependencies\<close>\<close>
  "merge_dependencies data = fill_lock_v2 data (fill_lock_v1 data (manifest_level data))"

fun raw_version :: "python \<Rightarrow> json \<Rightarrow> json" where
  \<comment> \<open>\<open>version_info.get("version") or ""\<close> for a dict, \<open>str(version_info)\<close> otherwise\<close>
  "raw_version py (JObj entry) =
     (case map_of entry ''version'' of
        Some v \<Rightarrow> if truthy v then v else JStr []
      | None \<Rightarrow> JStr [])"
| "raw_version py (JStr s) = JStr s"
| "raw_version py v = JStr (py_str py v)"

definition clean :: "string \<Rightarrow> string" where
  \<comment> \<open>\<open>re.sub(r'^[\^~>=<\s]*', '', version_raw)\<close>\<close>
  "clean version_raw = dropWhile (\<lambda>c. c \<in> set ''^~>=<'' \<or> is_space c) version_raw"

fun check_dependencies ::
  "python \<Rightarrow> ('s, 'v) semver \<Rightarrow> catalog \<Rightarrow> pydict \<Rightarrow> finding list \<Rightarrow> finding list" where
  \<comment> \<open>step 4; a \<open>version\<close> field that is truthy and not a str makes \<open>re.sub\<close> raise
      \<open>TypeError\<close>, and the handler returns what was collected so far. A package name
      that is not a str is never a key of the catalog.\<close>
  "check_dependencies py lib db [] vulnerabilities = vulnerabilities"
| "check_dependencies py lib db ((package_name, version_info) # rest) vulnerabilities =
     (let version_raw = raw_version py version_info
      in if \<not> truthy version_raw then check_dependencies py lib db rest vulnerabilities
         else (case version_raw of
                 JStr raw \<Rightarrow>
                   (let package_vulns =
                          (case package_name of
                             JStr name \<Rightarrow> is_vulnerable lib db name (clean raw)
                           | _ \<Rightarrow> [])
                    in check_dependencies py lib db rest
                         (vulnerabilities @
                            (case package_name of
                               JStr name \<Rightarrow> map (make_finding name raw (clean raw)) package_vulns
                             | _ \<Rightarrow> [])))
               | _ \<Rightarrow> vulnerabilities))"

definition scan_json_dependencies ::
  "python \<Rightarrow> ('s, 'v) semver \<Rightarrow> catalog \<Rightarrow> string \<Rightarrow> finding list" where
  \<comment> \<open>\<open>GitHubHandler._scan_json_dependencies\<close>: a failing \<open>json.loads\<close>, a document that
      is no dict (\<open>data.get\<close> raises) and an unhashable name all end in the handlers,
      before any finding is collected\<close>
  "scan_json_dependencies py lib db content =
     (case json_loads py content of
        None \<Rightarrow> []
      | Some (JObj data) \<Rightarrow>
          (case merge_dependencies data of
             None \<Rightarrow> []
           | Some dependencies \<Rightarrow> check_dependencies py lib db dependencies [])
      | Some _ \<Rightarrow> [])"

section \<open>The yarn.lock scan\<close>

definition item :: "'a list \<Rightarrow> nat \<Rightarrow> 'a option" where
  \<comment> \<open>\<open>xs[i]\<close> for \<open>i \<ge> 0\<close>; \<open>None\<close> is the \<open>IndexError\<close>\<close>
  "item xs i = (if i < length xs then Some (xs ! i) else None)"

definition nonempty :: "string option \<Rightarrow> bool" where
  \<comment> \<open>the truth value of a variable that holds \<open>None\<close> or a str\<close>
  "nonempty s \<longleftrightarrow> (case s of None \<Rightarrow> False | Some t \<Rightarrow> t \<noteq> [])"

definition lookup_findings :: "('s, 'v) semver \<Rightarrow> catalog \<Rightarrow> string \<times> string \<Rightarrow> finding list" where
  \<comment> \<open>the findings the two lock-file scans append for a package and its version\<close>
  "lookup_findings lib db pv =
     (case pv of (package_name, ver) \<Rightarrow>
        map (make_finding package_name ver ver) (is_vulnerable lib db package_name ver))"

definition yarn_step ::
  "string option \<Rightarrow> string \<Rightarrow> (string option \<times> (string \<times> string) option) option" where
  \<comment> \<open>one iteration of the loop of \<open>_scan_yarn_lock\<close>: from \<open>current_package\<close> and the
      line to the new \<open>current_package\<close> and the (package, version) that is looked up,
      if any. The outer \<open>None\<close> is an \<open>IndexError\<close>.\<close>
  "yarn_step current_package raw_line =
     (let line = strip raw_line
      in if line \<noteq> [] \<and> \<not> startswith line ''#'' then
           if endswith line '':'' \<and> CHR ''@'' \<in> set line then
             (let package_info = rstrip_chars '':'' line
              in if CHR ''@'' \<in> set package_info
                 then (case item (split_on CHR ''@'' package_info) 0 of
                         None \<Rightarrow> None
                       | Some name \<Rightarrow> Some (Some name, None))
                 else Some (current_package, None))
           else if startswith line ''version'' \<and> nonempty current_package then
             (if dquote \<in> set line
              then (case item (split_on dquote line) 1 of
                      None \<Rightarrow> None
                    | Some current_version \<Rightarrow>
                        Some (None,
                          if current_version \<noteq> []
                          then Some (the current_package, current_version) else None))
              else Some (None, None))
           else Some (current_package, None)
         else Some (current_package, None))"

fun yarn_loop ::
  "('s, 'v) semver \<Rightarrow> catalog \<Rightarrow> string option \<Rightarrow> finding list \<Rightarrow> string list \<Rightarrow> finding list" where
  \<comment> \<open>the \<open>for line in lines\<close> loop inside \<open>try\<close>: an exception ends the loop and the
      findings appended so far are returned\<close>
  "yarn_loop lib db current_package vulnerabilities [] = vulnerabilities"
| "yarn_loop lib db current_package vulnerabilities (raw_line # lines) =
     (case yarn_step current_package raw_line of
        None \<Rightarrow> vulnerabilities
      | Some (current_package', looked_up) \<Rightarrow>
          yarn_loop lib db current_package'
            (vulnerabilities @
               (case looked_up of None \<Rightarrow> [] | Some pv \<Rightarrow> lookup_findings lib db pv))
            lines)"

definition scan_yarn_lock :: "('s, 'v) semver \<Rightarrow> catalog \<Rightarrow> string \<Rightarrow> finding list" where
  \<comment> \<open>\<open>GitHubHandler._scan_yarn_lock\<close>\<close>
  "scan_yarn_lock lib db content = yarn_loop lib db None [] (splitlines content)"

text \<open>
  The words of the specification for the two kinds of line: a header is a non-comment
  line ending in \<open>:\<close> and containing \<open>@\<close>; the quoted version string is the text
  between the first double quote and the next one (or the end of the line).
\<close>

definition yarn_header :: "string \<Rightarrow> bool" where
  "yarn_header raw_line \<longleftrightarrow>
     (let line = strip raw_line
      in line \<noteq> [] \<and> \<not> startswith line ''#'' \<and> endswith line '':'' \<and> CHR ''@'' \<in> set line)"

definition quoted_version :: "string \<Rightarrow> string option" where
  "quoted_version line =
     (if dquote \<in> set line
      then Some (takeWhile (\<lambda>c. c \<noteq> dquote) (tl (dropWhile (\<lambda>c. c \<noteq> dquote) line)))
      else None)"


text \<open>
  The two-state scan in the words of the specification. A block is a header line with
  the lines that follow it up to the next header; the lines before the first header
  belong to no block. A block yields at most one (name, version) pair: the name is the
  text of the header before its first \<open>@\<close>, the version is the quoted version string of
  the first line of the block that begins with \<open>version\<close>.
\<close>

fun yarn_blocks :: "string list \<Rightarrow> (string \<times> string list) list" where
  "yarn_blocks [] = []"
| "yarn_blocks (l # ls) =
     (if yarn_header l
      then (l, takeWhile (\<lambda>x. \<not> yarn_header x) ls) # yarn_blocks ls
      else yarn_blocks ls)"

definition yarn_pair :: "string \<Rightarrow> string list \<Rightarrow> (string \<times> string) list" where
  "yarn_pair name body =
     (case find (\<lambda>l. startswith (strip l) ''version'') body of
        None \<Rightarrow> []
      | Some l \<Rightarrow>
          (case quoted_version (strip l) of
             None \<Rightarrow> []
           | Some v \<Rightarrow> if name \<noteq> [] \<and> v \<noteq> [] then [(name, v)] else []))"

definition yarn_block_pair :: "string \<times> string list \<Rightarrow> (string \<times> string) list" where
  "yarn_block_pair block =
     (case block of (header_line, body) \<Rightarrow>
        yarn_pair (takeWhile (\<lambda>c. c \<noteq> CHR ''@'') (strip header_line)) body)"

section \<open>The pnpm-lock.yaml scan\<close>

definition pnpm_package :: "string \<Rightarrow> (string \<times> string) option option" where
  \<comment> \<open>the body of \<open>if in_packages_section and line.startswith("  /")\<close>: the (package,
      version) that is looked up, if any. The outer \<open>None\<close> is an \<open>IndexError\<close>.\<close>
  "pnpm_package line =
     (let package_line = lstrip_chars ''/'' (strip line)
      in if CHR ''@'' \<in> set package_line then
           (case split_on CHR ''@'' package_line of
              package_name # second # others \<Rightarrow>
                (if CHR '':'' \<in> set second
                 then (case item (split_on CHR '':'' second) 0 of
                         None \<Rightarrow> None
                       | Some ver \<Rightarrow> Some (Some (package_name, ver)))
                 else Some (Some (package_name, second)))
            | _ \<Rightarrow> Some None)
         else Some None)"

fun pnpm_loop ::
  "('s, 'v) semver \<Rightarrow> catalog \<Rightarrow> bool \<Rightarrow> finding list \<Rightarrow> string list \<Rightarrow> finding list" where
  \<comment> \<open>the \<open>for line in lines\<close> loop; the flag is \<open>in_packages_section\<close>\<close>
  "pnpm_loop lib db in_packages_section vulnerabilities [] = vulnerabilities"
| "pnpm_loop lib db in_packages_section vulnerabilities (line # lines) =
     (if strip line = ''packages:'' then pnpm_loop lib db True vulnerabilities lines
      else if in_packages_section \<and> startswith line ''  /'' then
        (case pnpm_package line of
           None \<Rightarrow> vulnerabilities
         | Some looked_up \<Rightarrow>
             pnpm_loop lib db in_packages_section
               (vulnerabilities @
                  (case looked_up of None \<Rightarrow> [] | Some pv \<Rightarrow> lookup_findings lib db pv))
               lines)
      else pnpm_loop lib db in_packages_section vulnerabilities lines)"

definition scan_pnpm_lock :: "('s, 'v) semver \<Rightarrow> catalog \<Rightarrow> string \<Rightarrow> finding list" where
  \<comment> \<open>\<open>GitHubHandler._scan_pnpm_lock\<close>\<close>
  "scan_pnpm_lock lib db content = pnpm_loop lib db False [] (splitlines content)"

text \<open>
  The words of the specification for one line of the packages block: the line is read
  as \<open>name@versionSpec\<close>, and the version is the version specifier up to its first
  \<open>:\<close>. The version specifier ends at the next \<open>@\<close>, as \<open>parts[1]\<close> does.
\<close>

definition pnpm_entry :: "string \<Rightarrow> (string \<times> string) option" where
  "pnpm_entry line =
     (let package_line = lstrip_chars ''/'' (strip line)
      in if CHR ''@'' \<in> set package_line
         then Some (takeWhile (\<lambda>c. c \<noteq> CHR ''@'') package_line,
                    takeWhile (\<lambda>c. c \<noteq> CHR '':'')
                      (takeWhile (\<lambda>c. c \<noteq> CHR ''@'')
                         (tl (dropWhile (\<lambda>c. c \<noteq> CHR ''@'') package_line))))
         else None)"

definition pnpm_line_findings :: "('s, 'v) semver \<Rightarrow> catalog \<Rightarrow> string \<Rightarrow> finding list" where
  \<comment> \<open>what one line after the marker contributes\<close>
  "pnpm_line_findings lib db line =
     (if startswith line ''  /''
      then (case pnpm_entry line of None \<Rightarrow> [] | Some pv \<Rightarrow> lookup_findings lib db pv)
      else [])"

section \<open>Dispatch on the file name\<close>

definition scan_dependency_file ::
  "python \<Rightarrow> ('s, 'v) semver \<Rightarrow> catalog \<Rightarrow> string \<Rightarrow> string \<Rightarrow> finding list" where
  \<comment> \<open>\<open>GitHubHandler._scan_dependency_file\<close>; the three scans return a list on every
      input, so the handler of this function has nothing to catch\<close>
  "scan_dependency_file py lib db content file_type =
     (if file_type \<in> set [''package.json'', ''package-lock.json'']
      then scan_json_dependencies py lib db content
      else if file_type = ''yarn.lock'' then scan_yarn_lock lib db content
      else if file_type = ''pnpm-lock.yaml'' then scan_pnpm_lock lib db content
      else [])"

section \<open>The retrying request helper\<close>

text \<open>
  What one \<open>session.get\<close> does: it returns a response with a status code or raises a
  \<open>RequestException\<close>. The \<open>n\<close>-th request of one call of the helper has the outcome
  \<open>outcomes n\<close>. The helper's effects are the pauses and the requests, in order.
  These are the outcomes the helper handles; an exception of another class would leave
  the helper unhandled and is not part of the model.
\<close>

datatype outcome = Response nat | RequestException

datatype event =
    SleepRateLimitDelay
  | SleepSeconds nat
  | Get nat

fun retry_loop ::
  "nat \<Rightarrow> (nat \<Rightarrow> outcome) \<Rightarrow> event list \<Rightarrow> nat list \<Rightarrow> outcome option \<times> event list" where
  \<comment> \<open>the loop \<open>for attempt in range(self.config.retries)\<close>\<close>
  "retry_loop retries outcomes trace [] = (None, trace)"
| "retry_loop retries outcomes trace (attempt # attempts) =
     (let trace = trace @ [SleepRateLimitDelay, Get attempt]
      in case outcomes attempt of
           Response status_code \<Rightarrow>
             if status_code = 200 then (Some (Response status_code), trace)
             else if status_code = 403
               then retry_loop retries outcomes (trace @ [SleepSeconds 60]) attempts
             else if status_code = 401 then (None, trace)
             else retry_loop retries outcomes trace attempts
         | RequestException \<Rightarrow>
             retry_loop retries outcomes
               (if int attempt < int retries - 1 then trace @ [SleepSeconds (2 ^ attempt)] else trace)
               attempts)"

definition make_request_with_retry ::
  "nat \<Rightarrow> (nat \<Rightarrow> outcome) \<Rightarrow> outcome option \<times> event list" where
  \<comment> \<open>\<open>GitPlatformHandler._make_request_with_retry\<close> with \<open>config.retries = retries\<close>\<close>
  "make_request_with_retry retries outcomes = retry_loop retries outcomes [] [0..<retries]"

text \<open>
  A sequence of outcomes given as a list; a request beyond the list fails to connect.
\<close>

definition outcomes_of :: "outcome list \<Rightarrow> nat \<Rightarrow> outcome" where
  "outcomes_of rs n = (if n < length rs then rs ! n else RequestException)"

text \<open>
  The behaviour of the helper in words: an attempt is a pause of the configured delay
  and a request; status 200 and status 401 end the call; status 403 is followed by a
  pause of 60 seconds; a raised exception is followed by a pause of \<open>2 ^ attempt\<close>
  seconds unless the attempt was the last one; any other status is followed by no pause.
\<close>

definition final_outcome :: "outcome \<Rightarrow> bool" where
  "final_outcome r \<longleftrightarrow> r = Response 200 \<or> r = Response 401"

definition pause_after :: "nat \<Rightarrow> nat \<Rightarrow> outcome \<Rightarrow> event list" where
  "pause_after retries attempt r =
     (case r of
        Response status_code \<Rightarrow> if status_code = 403 then [SleepSeconds 60] else []
      | RequestException \<Rightarrow> if Suc attempt < retries then [SleepSeconds (2 ^ attempt)] else [])"

definition attempt_events :: "nat \<Rightarrow> (nat \<Rightarrow> outcome) \<Rightarrow> nat \<Rightarrow> event list" where
  "attempt_events retries outcomes attempt =
     [SleepRateLimitDelay, Get attempt] @ pause_after retries attempt (outcomes attempt)"

section \<open>A decoder for running the scan on concrete documents\<close>

text \<open>
  Modelled from the JSON grammar: \<open>json.loads\<close> is Python's, not the repository's.
  The decoder reads objects, arrays, strings without escape sequences, integers and
  the three literals; on a text with a string escape or a fractional number it gives
  \<open>None\<close> although \<open>json.loads\<close> accepts it, so it stands for \<open>json.loads\<close> only on
  the documents it is run on below. A repeated key keeps its first place and its last
  value, as in a Python dict. The recursion is bounded by the length of the text.
\<close>

definition skip_ws :: "string \<Rightarrow> string" where
  "skip_ws cs = dropWhile (\<lambda>c. c \<in> {CHR 0x20, CHR 0x09, CHR 0x0A, CHR 0x0D}) cs"

definition expect :: "char \<Rightarrow> string \<Rightarrow> string option" where
  \<comment> \<open>the text after the given character, which must come next after white space\<close>
  "expect c cs = (case skip_ws cs of [] \<Rightarrow> None | x # rest \<Rightarrow> if x = c then Some rest else None)"

fun scan_string :: "string \<Rightarrow> string \<Rightarrow> (string \<times> string) option" where
  \<comment> \<open>after the opening quote; the first argument is the string so far, reversed\<close>
  "scan_string acc [] = None"
| "scan_string acc (c # cs) =
     (if c = dquote then Some (rev acc, cs)
      else if c = CHR 0x5C \<or> (of_char c :: nat) < 32 then None
      else scan_string (c # acc) cs)"

definition scan_int :: "string \<Rightarrow> (json \<times> string) option" where
  "scan_int cs =
     (let negative = startswith cs ''-'';
          body = (if negative then drop 1 cs else cs);
          digits = takeWhile is_digit body;
          rest = dropWhile is_digit body
      in if digits = [] \<or> (length digits > 1 \<and> startswith digits ''0'')
            \<or> startswith rest ''.'' \<or> startswith rest ''e'' \<or> startswith rest ''E''
         then None
         else (case parse_number digits of
                 None \<Rightarrow> None
               | Some n \<Rightarrow> Some (JInt (if negative then - int n else int n), rest)))"

fun obj_set :: "(string \<times> json) list \<Rightarrow> string \<Rightarrow> json \<Rightarrow> (string \<times> json) list" where
  "obj_set [] k v = [(k, v)]"
| "obj_set ((k', v') # kvs) k v =
     (if k' = k then (k', v) # kvs else (k', v') # obj_set kvs k v)"

fun decode_value :: "nat \<Rightarrow> string \<Rightarrow> (json \<times> string) option"
  and decode_elements :: "nat \<Rightarrow> json list \<Rightarrow> string \<Rightarrow> (json \<times> string) option"
  and decode_members :: "nat \<Rightarrow> (string \<times> json) list \<Rightarrow> string \<Rightarrow> (json \<times> string) option"
where
  "decode_value 0 cs = None"
| "decode_value (Suc n) cs =
     (let text = skip_ws cs
      in if startswith text ''{'' then
           (case expect CHR ''}'' (drop 1 text) of
              Some rest \<Rightarrow> Some (JObj [], rest)
            | None \<Rightarrow> decode_members n [] (drop 1 text))
         else if startswith text ''['' then
           (case expect CHR '']'' (drop 1 text) of
              Some rest \<Rightarrow> Some (JArr [], rest)
            | None \<Rightarrow> decode_elements n [] (drop 1 text))
         else if startswith text [dquote] then
           (case scan_string [] (drop 1 text) of
              None \<Rightarrow> None
            | Some (s, rest) \<Rightarrow> Some (JStr s, rest))
         else if startswith text ''true'' then Some (JBool True, drop 4 text)
         else if startswith text ''false'' then Some (JBool False, drop 5 text)
         else if startswith text ''null'' then Some (JNull, drop 4 text)
         else scan_int text)"
| "decode_elements 0 acc cs = None"
| "decode_elements (Suc n) acc cs =
     (case decode_value n cs of
        None \<Rightarrow> None
      | Some (v, rest) \<Rightarrow>
          (case expect CHR '','' rest of
             Some rest' \<Rightarrow> decode_elements n (acc @ [v]) rest'
           | None \<Rightarrow>
               (case expect CHR '']'' rest of
                  Some rest' \<Rightarrow> Some (JArr (acc @ [v]), rest')
                | None \<Rightarrow> None)))"
| "decode_members 0 acc cs = None"
| "decode_members (Suc n) acc cs =
     (case expect dquote cs of
        None \<Rightarrow> None
      | Some after_quote \<Rightarrow>
          (case scan_string [] after_quote of
             None \<Rightarrow> None
           | Some (k, after_key) \<Rightarrow>
               (case expect CHR '':'' after_key of
                  None \<Rightarrow> None
                | Some after_colon \<Rightarrow>
                    (case decode_value n after_colon of
                       None \<Rightarrow> None
                     | Some (v, rest) \<Rightarrow>
                         (case expect CHR '','' rest of
                            Some rest' \<Rightarrow> decode_members n (obj_set acc k v) rest'
                          | None \<Rightarrow>
                              (case expect CHR ''}'' rest of
                                 Some rest' \<Rightarrow> Some (JObj (obj_set acc k v), rest')
                               | None \<Rightarrow> None))))))"

definition json_decode :: "string \<Rightarrow> json option" where
  "json_decode s =
     (case decode_value (Suc (length s)) s of
        None \<Rightarrow> None
      | Some (v, rest) \<Rightarrow> if skip_ws rest = [] then Some v else None)"

definition python_with :: "(json \<Rightarrow> string) \<Rightarrow> python" where
  \<comment> \<open>the decoder together with any rendering \<open>str\<close> of the other values\<close>
  "python_with str_fn = \<lparr>json_loads = json_decode, py_str = str_fn\<rparr>"

section \<open>The built-in catalog\<close>

text \<open>
  The rows of \<open>SHAI_HULUD_CSV\<close> as \<open>csv.DictReader\<close> yields them: the fields
  \<open>Package\<close> and \<open>Version\<close> of each line after the header. The 795 rows are
  written in parts of forty, in the order of the source.
\<close>

definition csv_rows_0 :: "(string \<times> string) list" where
  "csv_rows_0 = [
    (''02-echo'', ''= 0.0.7''),
    (''@accordproject/concerto-analysis'', ''= 3.24.1''),
    (''@accordproject/concerto-linter'', ''= 3.24.1''),
    (''@accordproject/concerto-linter-default-ruleset'', ''= 3.24.1''),
    (''@accordproject/concerto-metamodel'', ''= 3.12.5''),
    (''@accordproject/concerto-types'', ''= 3.24.1''),
    (''@accordproject/markdown-it-cicero'', ''= 0.16.26''),
    (''@accordproject/template-engine'', ''= 2.7.2''),
    (''@actbase/css-to-react-native-transform'', ''= 1.0.3''),
    (''@actbase/native'', ''= 0.1.32''),
    (''@actbase/node-server'', ''= 1.1.19''),
    (''@actbase/react-absolute'', ''= 0.8.3''),
    (''@actbase/react-daum-postcode'', ''= 1.0.5''),
    (''@actbase/react-kakaosdk'', ''= 0.9.27''),
    (''@actbase/react-native-actionsheet'', ''= 1.0.3''),
    (''@actbase/react-native-devtools'', ''= 0.1.3''),
    (''@actbase/react-native-fast-image'', ''= 8.5.13''),
    (''@actbase/react-native-kakao-channel'', ''= 1.0.2''),
    (''@actbase/react-native-kakao-navi'', ''= 2.0.4''),
    (''@actbase/react-native-less-transformer'', ''= 1.0.6''),
    (''@actbase/react-native-naver-login'', ''= 1.0.1''),
    (''@actbase/react-native-simple-video'', ''= 1.0.13''),
    (''@actbase/react-native-tiktok'', ''= 1.1.3''),
    (''@afetcan/api'', ''= 0.0.13''),
    (''@afetcan/storage'', ''= 0.0.27''),
    (''@alaan/s2s-auth'', ''= 2.0.3''),
    (''@alexadark/amadeus-api'', ''= 1.0.4''),
    (''@alexadark/gatsby-theme-events'', ''= 1.0.1''),
    (''@alexadark/gatsby-theme-wordpress-blog'', ''= 2.0.1''),
    (''@alexadark/reusable-functions'', ''= 1.5.1''),
    (''@alexcolls/nuxt-socket.io'', ''= 0.0.7 || = 0.0.8''),
    (''@alexcolls/nuxt-ux'', ''= 0.6.1 || = 0.6.2''),
    (''@antstackio/eslint-config-antstack'', ''= 0.0.3''),
    (''@antstackio/express-graphql-proxy'', ''= 0.2.8''),
    (''@antstackio/graphql-body-parser'', ''= 0.1.1''),
    (''@antstackio/json-to-graphql'', ''= 1.0.3''),
    (''@antstackio/shelbysam'', ''= 1.1.7''),
    (''@aryanhussain/my-angular-lib'', ''= 0.0.23''),
    (''@asyncapi/avro-schema-parser'', ''= 3.0.25 || = 3.0.26''),
    (''@asyncapi/bundler'', ''= 0.6.5 || = 0.6.6'')]"

definition csv_rows_1 :: "(string \<times> string) list" where
  "csv_rows_1 = [
    (''@asyncapi/cli'', ''= 4.1.3 || = 4.1.2''),
    (''@asyncapi/converter'', ''= 1.6.3 || = 1.6.4''),
    (''@asyncapi/diff'', ''= 0.5.1 || = 0.5.2''),
    (''@asyncapi/dotnet-rabbitmq-template'', ''= 1.0.2 || = 1.0.1''),
    (''@asyncapi/edavisualiser'', ''= 1.2.2 || = 1.2.1''),
    (''@asyncapi/generator'', ''= 2.8.5 || = 2.8.6''),
    (''@asyncapi/generator-components'', ''= 0.3.2 || = 0.3.3''),
    (''@asyncapi/generator-helpers'', ''= 0.2.1 || = 0.2.2''),
    (''@asyncapi/generator-react-sdk'', ''= 1.1.5 || = 1.1.4''),
    (''@asyncapi/go-watermill-template'', ''= 0.2.77 || = 0.2.76''),
    (''@asyncapi/html-template'', ''= 3.3.2 || = 3.3.3''),
    (''@asyncapi/java-spring-cloud-stream-template'', ''= 0.13.5 || = 0.13.6''),
    (''@asyncapi/java-spring-template'', ''= 1.6.2 || = 1.6.1''),
    (''@asyncapi/java-template'', ''= 0.3.6 || = 0.3.5''),
    (''@asyncapi/keeper'', ''= 0.0.2 || = 0.0.3''),
    (''@asyncapi/markdown-template'', ''= 1.6.8 || = 1.6.9''),
    (''@asyncapi/modelina'', ''= 5.10.3 || = 5.10.2''),
    (''@asyncapi/modelina-cli'', ''= 5.10.3 || = 5.10.2''),
    (''@asyncapi/multi-parser'', ''= 2.2.1 || = 2.2.2''),
    (''@asyncapi/nodejs-template'', ''= 3.0.6 || = 3.0.5''),
    (''@asyncapi/nodejs-ws-template'', ''= 0.10.1 || = 0.10.2''),
    (''@asyncapi/nunjucks-filters'', ''= 2.1.1 || = 2.1.2''),
    (''@asyncapi/openapi-schema-parser'', ''= 3.0.25 || = 3.0.26''),
    (''@asyncapi/optimizer'', ''= 1.0.6 || = 1.0.5''),
    (''@asyncapi/parser'', ''= 3.4.1 || = 3.4.2''),
    (''@asyncapi/php-template'', ''= 0.1.1 || = 0.1.2''),
    (''@asyncapi/problem'', ''= 1.0.2 || = 1.0.1''),
    (''@asyncapi/protobuf-schema-parser'', ''= 3.5.2 || = 3.6.1 || = 3.5.3''),
    (''@asyncapi/python-paho-template'', ''= 0.2.15 || = 0.2.14''),
    (''@asyncapi/react-component'', ''= 2.6.7 || = 2.6.6''),
    (''@asyncapi/server-api'', ''= 0.16.24 || = 0.16.25''),
    (''@asyncapi/specs'', ''= 6.9.1 || = 6.10.1 || = 6.8.3 || = 6.8.2''),
    (''@asyncapi/studio'', ''= 1.0.3 || = 1.0.2''),
    (''@asyncapi/web-component'', ''= 2.6.7 || = 2.6.6''),
    (''@bdkinc/knex-ibmi'', ''= 0.5.7''),
    (''@browserbasehq/bb9'', ''= 1.2.21''),
    (''@browserbasehq/director-ai'', ''= 1.0.3''),
    (''@browserbasehq/mcp'', ''= 2.1.1''),
    (''@browserbasehq/mcp-server-browserbase'', ''= 2.4.2''),
    (''@browserbasehq/sdk-functions'', ''= 0.0.4'')]"

definition csv_rows_2 :: "(string \<times> string) list" where
  "csv_rows_2 = [
    (''@browserbasehq/stagehand'', ''= 3.0.4''),
    (''@browserbasehq/stagehand-docs'', ''= 1.0.1''),
    (''@caretive/caret-cli'', ''= 0.0.2''),
    (''@chtijs/eslint-config'', ''= 1.0.1''),
    (''@clausehq/flows-step-httprequest'', ''= 0.1.14''),
    (''@clausehq/flows-step-jsontoxml'', ''= 0.1.14''),
    (''@clausehq/flows-step-mqtt'', ''= 0.1.14''),
    (''@clausehq/flows-step-sendgridemail'', ''= 0.1.14''),
    (''@clausehq/flows-step-taskscreateurl'', ''= 0.1.14''),
    (''@cllbk/ghl'', ''= 1.3.1''),
    (''@commute/bloom'', ''= 1.0.3''),
    (''@commute/market-data'', ''= 1.0.2''),
    (''@commute/market-data-chartjs'', ''= 2.3.1''),
    (''@dev-blinq/ai-qa-logic'', ''= 1.0.19''),
    (''@dev-blinq/blinqioclient'', ''= 1.0.21''),
    (''@dev-blinq/cucumber-js'', ''= 1.0.131''),
    (''@dev-blinq/cucumber_client'', ''= 1.0.738''),
    (''@dev-blinq/ui-systems'', ''= 1.0.93''),
    (''@ensdomains/address-encoder'', ''= 1.1.5''),
    (''@ensdomains/blacklist'', ''= 1.0.1''),
    (''@ensdomains/buffer'', ''= 0.1.2''),
    (''@ensdomains/ccip-read-cf-worker'', ''= 0.0.4''),
    (''@ensdomains/ccip-read-dns-gateway'', ''= 0.1.1''),
    (''@ensdomains/ccip-read-router'', ''= 0.0.7''),
    (''@ensdomains/ccip-read-worker-viem'', ''= 0.0.4''),
    (''@ensdomains/content-hash'', ''= 3.0.1''),
    (''@ensdomains/curvearithmetics'', ''= 1.0.1''),
    (''@ensdomains/cypress-metamask'', ''= 1.2.1''),
    (''@ensdomains/dnsprovejs'', ''= 0.5.3''),
    (''@ensdomains/dnssec-oracle-anchors'', ''= 0.0.2''),
    (''@ensdomains/dnssecoraclejs'', ''= 0.2.9''),
    (''@ensdomains/durin'', ''= 0.1.2''),
    (''@ensdomains/durin-middleware'', ''= 0.0.2''),
    (''@ensdomains/ens-archived-contracts'', ''= 0.0.3''),
    (''@ensdomains/ens-avatar'', ''= 1.0.4''),
    (''@ensdomains/ens-contracts'', ''= 1.6.1''),
    (''@ensdomains/ens-test-env'', ''= 1.0.2''),
    (''@ensdomains/ens-validation'', ''= 0.1.1''),
    (''@ensdomains/ensjs'', ''= 4.0.3''),
    (''@ensdomains/ensjs-react'', ''= 0.0.5'')]"

definition csv_rows_3 :: "(string \<times> string) list" where
  "csv_rows_3 = [
    (''@ensdomains/eth-ens-namehash'', ''= 2.0.16''),
    (''@ensdomains/hackathon-registrar'', ''= 1.0.5''),
    (''@ensdomains/hardhat-chai-matchers-viem'', ''= 0.1.15''),
    (''@ensdomains/hardhat-toolbox-viem-extended'', ''= 0.0.6''),
    (''@ensdomains/mock'', ''= 2.1.52''),
    (''@ensdomains/name-wrapper'', ''= 1.0.1''),
    (''@ensdomains/offchain-resolver-contracts'', ''= 0.2.2''),
    (''@ensdomains/op-resolver-contracts'', ''= 0.0.2''),
    (''@ensdomains/react-ens-address'', ''= 0.0.32''),
    (''@ensdomains/renewal'', ''= 0.0.13''),
    (''@ensdomains/renewal-widget'', ''= 0.1.10''),
    (''@ensdomains/reverse-records'', ''= 1.0.1''),
    (''@ensdomains/server-analytics'', ''= 0.0.2''),
    (''@ensdomains/solsha1'', ''= 0.0.4''),
    (''@ensdomains/subdomain-registrar'', ''= 0.2.4''),
    (''@ensdomains/test-utils'', ''= 1.3.1''),
    (''@ensdomains/thorin'', ''= 0.6.51''),
    (''@ensdomains/ui'', ''= 3.4.6''),
    (''@ensdomains/unicode-confusables'', ''= 0.1.1''),
    (''@ensdomains/unruggable-gateways'', ''= 0.0.3''),
    (''@ensdomains/vite-plugin-i18next-loader'', ''= 4.0.4''),
    (''@ensdomains/web3modal'', ''= 1.10.2''),
    (''@everreal/react-charts'', ''= 2.0.2 || = 2.0.1''),
    (''@everreal/validate-esmoduleinterop-imports'', ''= 1.4.5 || = 1.4.4''),
    (''@everreal/web-analytics'', ''= 0.0.1 || = 0.0.2''),
    (''@faq-component/core'', ''= 0.0.4''),
    (''@faq-component/react'', ''= 1.0.1''),
    (''@fishingbooker/browser-sync-plugin'', ''= 1.0.5''),
    (''@fishingbooker/react-loader'', ''= 1.0.7''),
    (''@fishingbooker/react-pagination'', ''= 2.0.6''),
    (''@fishingbooker/react-raty'', ''= 2.0.1''),
    (''@fishingbooker/react-swiper'', ''= 0.1.5''),
    (''@hapheus/n8n-nodes-pgp'', ''= 1.5.1''),
    (''@hover-design/core'', ''= 0.0.1''),
    (''@hover-design/react'', ''= 0.2.1''),
    (''@huntersofbook/auth-vue'', ''= 0.4.2''),
    (''@huntersofbook/core'', ''= 0.5.1''),
    (''@huntersofbook/core-nuxt'', ''= 0.4.2''),
    (''@huntersofbook/form-naiveui'', ''= 0.5.1''),
    (''@huntersofbook/i18n'', ''= 0.8.2'')]"

definition csv_rows_4 :: "(string \<times> string) list" where
  "csv_rows_4 = [
    (''@huntersofbook/ui'', ''= 0.5.1''),
    (''@hyperlook/telemetry-sdk'', ''= 1.0.19''),
    (''@ifelsedeveloper/protocol-contracts-svm-idl'', ''= 0.1.2 || = 0.1.3''),
    (''@ifings/design-system'', ''= 4.9.2''),
    (''@ifings/metatron3'', ''= 0.1.5''),
    (''@jayeshsadhwani/telemetry-sdk'', ''= 1.0.14''),
    (''@kvytech/cli'', ''= 0.0.7''),
    (''@kvytech/components'', ''= 0.0.2''),
    (''@kvytech/habbit-e2e-test'', ''= 0.0.2''),
    (''@kvytech/medusa-plugin-announcement'', ''= 0.0.8''),
    (''@kvytech/medusa-plugin-management'', ''= 0.0.5''),
    (''@kvytech/medusa-plugin-newsletter'', ''= 0.0.5''),
    (''@kvytech/medusa-plugin-product-reviews'', ''= 0.0.9''),
    (''@kvytech/medusa-plugin-promotion'', ''= 0.0.2''),
    (''@kvytech/web'', ''= 0.0.2''),
    (''@lessondesk/api-client'', ''= 9.12.2 || = 9.12.3''),
    (''@lessondesk/babel-preset'', ''= 1.0.1''),
    (''@lessondesk/electron-group-api-client'', ''= 1.0.3''),
    (''@lessondesk/eslint-config'', ''= 1.4.2''),
    (''@lessondesk/material-icons'', ''= 1.0.3''),
    (''@lessondesk/react-table-context'', ''= 2.0.4''),
    (''@lessondesk/schoolbus'', ''= 5.2.2 || = 5.2.3''),
    (''@livecms/live-edit'', ''= 0.0.32''),
    (''@livecms/nuxt-live-edit'', ''= 1.9.2''),
    (''@lokeswari-satyanarayanan/rn-zustand-expo-template'', ''= 1.0.9''),
    (''@louisle2/core'', ''= 1.0.1''),
    (''@louisle2/cortex-js'', ''= 0.1.6''),
    (''@lpdjs/firestore-repo-service'', ''= 1.0.1''),
    (''@lui-ui/lui-nuxt'', ''= 0.1.1''),
    (''@lui-ui/lui-tailwindcss'', ''= 0.1.2''),
    (''@lui-ui/lui-vue'', ''= 1.0.13''),
    (''@markvivanco/app-version-checker'', ''= 1.0.2 || = 1.0.1''),
    (''@mcp-use/cli'', ''= 2.2.7 || = 2.2.6''),
    (''@mcp-use/inspector'', ''= 0.6.3 || = 0.6.2''),
    (''@mcp-use/mcp-use'', ''= 1.0.2 || = 1.0.1''),
    (''@micado-digital/stadtmarketing-kufstein-external'', ''= 1.9.1''),
    (''@mizzle-dev/orm'', ''= 0.0.2''),
    (''@mparpaillon/connector-parse'', ''= 1.0.1''),
    (''@mparpaillon/imagesloaded'', ''= 4.1.2''),
    (''@mparpaillon/page'', ''= 1.0.1'')]"

definition csv_rows_5 :: "(string \<times> string) list" where
  "csv_rows_5 = [
    (''@ntnx/passport-wso2'', ''= 0.0.3''),
    (''@ntnx/t'', ''= 0.0.101''),
    (''@oku-ui/accordion'', ''= 0.6.2''),
    (''@oku-ui/alert-dialog'', ''= 0.6.2''),
    (''@oku-ui/arrow'', ''= 0.6.2''),
    (''@oku-ui/aspect-ratio'', ''= 0.6.2''),
    (''@oku-ui/avatar'', ''= 0.6.2''),
    (''@oku-ui/checkbox'', ''= 0.6.3''),
    (''@oku-ui/collapsible'', ''= 0.6.2''),
    (''@oku-ui/collection'', ''= 0.6.2''),
    (''@oku-ui/dialog'', ''= 0.6.2''),
    (''@oku-ui/direction'', ''= 0.6.2''),
    (''@oku-ui/dismissable-layer'', ''= 0.6.2''),
    (''@oku-ui/focus-guards'', ''= 0.6.2''),
    (''@oku-ui/focus-scope'', ''= 0.6.2''),
    (''@oku-ui/hover-card'', ''= 0.6.2''),
    (''@oku-ui/label'', ''= 0.6.2''),
    (''@oku-ui/menu'', ''= 0.6.2''),
    (''@oku-ui/motion'', ''= 0.4.4''),
    (''@oku-ui/motion-nuxt'', ''= 0.2.2''),
    (''@oku-ui/popover'', ''= 0.6.2''),
    (''@oku-ui/popper'', ''= 0.6.2''),
    (''@oku-ui/portal'', ''= 0.6.2''),
    (''@oku-ui/presence'', ''= 0.6.2''),
    (''@oku-ui/primitive'', ''= 0.6.2''),
    (''@oku-ui/primitives'', ''= 0.7.9''),
    (''@oku-ui/primitives-nuxt'', ''= 0.3.1''),
    (''@oku-ui/progress'', ''= 0.6.2''),
    (''@oku-ui/provide'', ''= 0.6.2''),
    (''@oku-ui/radio-group'', ''= 0.6.2''),
    (''@oku-ui/roving-focus'', ''= 0.6.2''),
    (''@oku-ui/scroll-area'', ''= 0.6.2''),
    (''@oku-ui/separator'', ''= 0.6.2''),
    (''@oku-ui/slider'', ''= 0.6.2''),
    (''@oku-ui/slot'', ''= 0.6.2''),
    (''@oku-ui/switch'', ''= 0.6.2''),
    (''@oku-ui/tabs'', ''= 0.6.2''),
    (''@oku-ui/toast'', ''= 0.6.2''),
    (''@oku-ui/toggle'', ''= 0.6.2''),
    (''@oku-ui/toggle-group'', ''= 0.6.2'')]"

definition csv_rows_6 :: "(string \<times> string) list" where
  "csv_rows_6 = [
    (''@oku-ui/toolbar'', ''= 0.6.2''),
    (''@oku-ui/tooltip'', ''= 0.6.2''),
    (''@oku-ui/use-composable'', ''= 0.6.2''),
    (''@oku-ui/utils'', ''= 0.6.2''),
    (''@oku-ui/visually-hidden'', ''= 0.6.2''),
    (''@orbitgtbelgium/mapbox-gl-draw-cut-polygon-mode'', ''= 2.0.5''),
    (''@orbitgtbelgium/mapbox-gl-draw-scale-rotate-mode'', ''= 1.1.1''),
    (''@orbitgtbelgium/orbit-components'', ''= 1.2.9''),
    (''@orbitgtbelgium/time-slider'', ''= 1.0.187''),
    (''@osmanekrem/bmad'', ''= 1.0.6''),
    (''@osmanekrem/error-handler'', ''= 1.2.2''),
    (''@pergel/cli'', ''= 0.11.1''),
    (''@pergel/module-box'', ''= 0.6.1''),
    (''@pergel/module-graphql'', ''= 0.6.1''),
    (''@pergel/module-ui'', ''= 0.0.9''),
    (''@pergel/nuxt'', ''= 0.25.5''),
    (''@posthog/agent'', ''= 1.24.1''),
    (''@posthog/ai'', ''= 7.1.2''),
    (''@posthog/automatic-cohorts-plugin'', ''= 0.0.8''),
    (''@posthog/bitbucket-release-tracker'', ''= 0.0.8''),
    (''@posthog/cli'', ''= 0.5.15''),
    (''@posthog/clickhouse'', ''= 1.7.1''),
    (''@posthog/core'', ''= 1.5.6''),
    (''@posthog/currency-normalization-plugin'', ''= 0.0.8''),
    (''@posthog/customerio-plugin'', ''= 0.0.8''),
    (''@posthog/databricks-plugin'', ''= 0.0.8''),
    (''@posthog/drop-events-on-property-plugin'', ''= 0.0.8''),
    (''@posthog/event-sequence-timer-plugin'', ''= 0.0.8''),
    (''@posthog/filter-out-plugin'', ''= 0.0.8''),
    (''@posthog/first-time-event-tracker'', ''= 0.0.8''),
    (''@posthog/geoip-plugin'', ''= 0.0.8''),
    (''@posthog/github-release-tracking-plugin'', ''= 0.0.8''),
    (''@posthog/gitub-star-sync-plugin'', ''= 0.0.8''),
    (''@posthog/heartbeat-plugin'', ''= 0.0.8''),
    (''@posthog/hedgehog-mode'', ''= 0.0.42''),
    (''@posthog/icons'', ''= 0.36.1''),
    (''@posthog/ingestion-alert-plugin'', ''= 0.0.8''),
    (''@posthog/intercom-plugin'', ''= 0.0.8''),
    (''@posthog/kinesis-plugin'', ''= 0.0.8''),
    (''@posthog/laudspeaker-plugin'', ''= 0.0.8'')]"

definition csv_rows_7 :: "(string \<times> string) list" where
  "csv_rows_7 = [
    (''@posthog/lemon-ui'', ''= 0.0.1''),
    (''@posthog/maxmind-plugin'', ''= 0.1.6''),
    (''@posthog/migrator3000-plugin'', ''= 0.0.8''),
    (''@posthog/netdata-event-processing'', ''= 0.0.8''),
    (''@posthog/nextjs'', ''= 0.0.3''),
    (''@posthog/nextjs-config'', ''= 1.5.1''),
    (''@posthog/nuxt'', ''= 1.2.9''),
    (''@posthog/pagerduty-plugin'', ''= 0.0.8''),
    (''@posthog/piscina'', ''= 3.2.1''),
    (''@posthog/plugin-contrib'', ''= 0.0.6''),
    (''@posthog/plugin-server'', ''= 1.10.8''),
    (''@posthog/plugin-unduplicates'', ''= 0.0.8''),
    (''@posthog/postgres-plugin'', ''= 0.0.8''),
    (''@posthog/react-rrweb-player'', ''= 1.1.4''),
    (''@posthog/rrdom'', ''= 0.0.31''),
    (''@posthog/rrweb'', ''= 0.0.31''),
    (''@posthog/rrweb-player'', ''= 0.0.31''),
    (''@posthog/rrweb-record'', ''= 0.0.31''),
    (''@posthog/rrweb-replay'', ''= 0.0.19''),
    (''@posthog/rrweb-snapshot'', ''= 0.0.31''),
    (''@posthog/rrweb-utils'', ''= 0.0.31''),
    (''@posthog/sendgrid-plugin'', ''= 0.0.8''),
    (''@posthog/siphash'', ''= 1.1.2''),
    (''@posthog/snowflake-export-plugin'', ''= 0.0.8''),
    (''@posthog/taxonomy-plugin'', ''= 0.0.8''),
    (''@posthog/twilio-plugin'', ''= 0.0.8''),
    (''@posthog/twitter-followers-plugin'', ''= 0.0.8''),
    (''@posthog/url-normalizer-plugin'', ''= 0.0.8''),
    (''@posthog/variance-plugin'', ''= 0.0.8''),
    (''@posthog/web-dev-server'', ''= 1.0.5''),
    (''@posthog/wizard'', ''= 1.18.1''),
    (''@posthog/zendesk-plugin'', ''= 0.0.8''),
    (''@postman/aether-icons'', ''= 2.23.2 || = 2.23.3 || = 2.23.4''),
    (''@postman/csv-parse'', ''= 4.0.3 || = 4.0.5 || = 4.0.4''),
    (''@postman/final-node-keytar'', ''= 7.9.3 || = 7.9.1 || = 7.9.2''),
    (''@postman/mcp-ui-client'', ''= 5.5.2 || = 5.5.3 || = 5.5.1''),
    (''@postman/node-keytar'', ''= 7.9.4 || = 7.9.5 || = 7.9.6''),
    (''@postman/pm-bin-linux-x64'', ''= 1.24.3 || = 1.24.5 || = 1.24.4''),
    (''@postman/pm-bin-macos-arm64'', ''= 1.24.3 || = 1.24.5 || = 1.24.4''),
    (''@postman/pm-bin-macos-x64'', ''= 1.24.3 || = 1.24.5 || = 1.24.4'')]"

definition csv_rows_8 :: "(string \<times> string) list" where
  "csv_rows_8 = [
    (''@postman/pm-bin-windows-x64'', ''= 1.24.3 || = 1.24.5 || = 1.24.4''),
    (''@postman/postman-collection-fork'', ''= 4.3.3 || = 4.3.5 || = 4.3.4''),
    (''@postman/postman-mcp-cli'', ''= 1.0.4 || = 1.0.5 || = 1.0.3''),
    (''@postman/postman-mcp-server'', ''= 2.4.12 || = 2.4.10 || = 2.4.11''),
    (''@postman/pretty-ms'', ''= 6.1.2 || = 6.1.3 || = 6.1.1''),
    (''@postman/secret-scanner-wasm'', ''= 2.1.4 || = 2.1.3 || = 2.1.2''),
    (''@postman/tunnel-agent'', ''= 0.6.5 || = 0.6.7 || = 0.6.6''),
    (''@postman/wdio-allure-reporter'', ''= 0.0.7 || = 0.0.8 || = 0.0.9''),
    (''@postman/wdio-junit-reporter'', ''= 0.0.4 || = 0.0.5 || = 0.0.6''),
    (''@pradhumngautam/common-app'', ''= 1.0.2''),
    (''@productdevbook/animejs-vue'', ''= 0.2.1''),
    (''@productdevbook/auth'', ''= 0.2.2''),
    (''@productdevbook/chatwoot'', ''= 2.0.1''),
    (''@productdevbook/motion'', ''= 1.0.4''),
    (''@productdevbook/ts-i18n'', ''= 1.4.2''),
    (''@pruthvi21/use-debounce'', ''= 1.0.3''),
    (''@quick-start-soft/quick-document-translator'', ''= 1.4.2511142126''),
    (''@quick-start-soft/quick-git-clean-markdown'', ''= 1.4.2511142126''),
    (''@quick-start-soft/quick-markdown'', ''= 1.4.2511142126''),
    (''@quick-start-soft/quick-markdown-compose'', ''= 1.4.2506300029''),
    (''@quick-start-soft/quick-markdown-image'', ''= 1.4.2511142126''),
    (''@quick-start-soft/quick-markdown-print'', ''= 1.4.2511142126''),
    (''@quick-start-soft/quick-markdown-translator'', ''= 1.4.2509202331''),
    (''@quick-start-soft/quick-remove-image-background'', ''= 1.4.2511142126''),
    (''@quick-start-soft/quick-task-refine'', ''= 1.4.2511142126''),
    (''@relyt/claude-context-core'', ''= 0.1.1''),
    (''@relyt/claude-context-mcp'', ''= 0.1.1''),
    (''@relyt/mcp-server-relytone'', ''= 0.0.3''),
    (''@sameepsi/sor'', ''= 1.0.3''),
    (''@sameepsi/sor2'', ''= 2.0.2''),
    (''@seezo/sdr-mcp-server'', ''= 0.0.5''),
    (''@seung-ju/next'', ''= 0.0.2''),
    (''@seung-ju/openapi-generator'', ''= 0.0.4''),
    (''@seung-ju/react-hooks'', ''= 0.0.2''),
    (''@seung-ju/react-native-action-sheet'', ''= 0.2.1''),
    (''@silgi/better-auth'', ''= 0.8.1''),
    (''@silgi/drizzle'', ''= 0.8.4''),
    (''@silgi/ecosystem'', ''= 0.7.6''),
    (''@silgi/graphql'', ''= 0.7.15''),
    (''@silgi/module-builder'', ''= 0.8.8'')]"

definition csv_rows_9 :: "(string \<times> string) list" where
  "csv_rows_9 = [
    (''@silgi/openapi'', ''= 0.7.4''),
    (''@silgi/permission'', ''= 0.6.8''),
    (''@silgi/ratelimit'', ''= 0.2.1''),
    (''@silgi/scalar'', ''= 0.6.2''),
    (''@silgi/yoga'', ''= 0.7.1''),
    (''@sme-ui/aoma-vevasound-metadata-lib'', ''= 0.1.3''),
    (''@strapbuild/react-native-date-time-picker'', ''= 2.0.4''),
    (''@strapbuild/react-native-perspective-image-cropper'', ''= 0.4.15''),
    (''@strapbuild/react-native-perspective-image-cropper-2'', ''= 0.4.7''),
    (''@strapbuild/react-native-perspective-image-cropper-poojan31'', ''= 0.4.6''),
    (''@suraj_h/medium-common'', ''= 1.0.5''),
    (''@thedelta/eslint-config'', ''= 1.0.2''),
    (''@tiaanduplessis/json'', ''= 2.0.2 || = 2.0.3''),
    (''@tiaanduplessis/react-progressbar'', ''= 1.0.2 || = 1.0.1''),
    (''@trackstar/angular-trackstar-link'', ''= 1.0.2''),
    (''@trackstar/react-trackstar-link'', ''= 2.0.21''),
    (''@trackstar/react-trackstar-link-upgrade'', ''= 1.1.10''),
    (''@trackstar/test-angular-package'', ''= 0.0.9''),
    (''@trackstar/test-package'', ''= 1.1.5''),
    (''@trefox/sleekshop-js'', ''= 0.1.6''),
    (''@trigo/atrix'', ''= 7.0.1''),
    (''@trigo/atrix-acl'', ''= 4.0.2''),
    (''@trigo/atrix-elasticsearch'', ''= 2.0.1''),
    (''@trigo/atrix-mongoose'', ''= 1.0.2''),
    (''@trigo/atrix-orientdb'', ''= 1.0.2''),
    (''@trigo/atrix-postgres'', ''= 1.0.3''),
    (''@trigo/atrix-pubsub'', ''= 4.0.3''),
    (''@trigo/atrix-redis'', ''= 1.0.2''),
    (''@trigo/atrix-soap'', ''= 1.0.2''),
    (''@trigo/atrix-swagger'', ''= 3.0.1''),
    (''@trigo/bool-expressions'', ''= 4.1.3''),
    (''@trigo/eslint-config-trigo'', ''= 3.3.1''),
    (''@trigo/fsm'', ''= 3.4.2''),
    (''@trigo/hapi-auth-signedlink'', ''= 1.3.1''),
    (''@trigo/jsdt'', ''= 0.2.1''),
    (''@trigo/keycloak-api'', ''= 1.3.1''),
    (''@trigo/node-soap'', ''= 0.5.4''),
    (''@trigo/pathfinder-ui-css'', ''= 0.1.1''),
    (''@trigo/trigo-hapijs'', ''= 5.0.1''),
    (''@trpc-rate-limiter/cloudflare'', ''= 0.1.4'')]"

definition csv_rows_10 :: "(string \<times> string) list" where
  "csv_rows_10 = [
    (''@trpc-rate-limiter/hono'', ''= 0.1.4''),
    (''@varsityvibe/api-client'', ''= 1.3.36 || = 1.3.37''),
    (''@varsityvibe/utils'', ''= 5.0.6''),
    (''@varsityvibe/validation-schemas'', ''= 0.6.7 || = 0.6.8''),
    (''@viapip/eslint-config'', ''= 0.2.4''),
    (''@vishadtyagi/full-year-calendar'', ''= 0.1.11''),
    (''@voiceflow/alexa-types'', ''= 2.15.60 || = 2.15.61''),
    (''@voiceflow/anthropic'', ''= 0.4.4 || = 0.4.5''),
    (''@voiceflow/api-sdk'', ''= 3.28.59 || = 3.28.58''),
    (''@voiceflow/backend-utils'', ''= 5.0.1 || = 5.0.2''),
    (''@voiceflow/base-types'', ''= 2.136.3 || = 2.136.2''),
    (''@voiceflow/body-parser'', ''= 1.21.3 || = 1.21.2''),
    (''@voiceflow/chat-types'', ''= 2.14.59 || = 2.14.58''),
    (''@voiceflow/circleci-config-sdk-orb-import'', ''= 0.2.1 || = 0.2.2''),
    (''@voiceflow/commitlint-config'', ''= 2.6.2 || = 2.6.1''),
    (''@voiceflow/common'', ''= 8.9.1 || = 8.9.2''),
    (''@voiceflow/default-prompt-wrappers'', ''= 1.7.4 || = 1.7.3''),
    (''@voiceflow/dependency-cruiser-config'', ''= 1.8.11 || = 1.8.12''),
    (''@voiceflow/dtos-interact'', ''= 1.40.2 || = 1.40.1''),
    (''@voiceflow/encryption'', ''= 0.3.2 || = 0.3.3''),
    (''@voiceflow/eslint-config'', ''= 7.16.4 || = 7.16.5''),
    (''@voiceflow/eslint-plugin'', ''= 1.6.2 || = 1.6.1''),
    (''@voiceflow/exception'', ''= 1.10.1 || = 1.10.2''),
    (''@voiceflow/fetch'', ''= 1.11.1 || = 1.11.2''),
    (''@voiceflow/general-types'', ''= 3.2.22 || = 3.2.23''),
    (''@voiceflow/git-branch-check'', ''= 1.4.3 || = 1.4.4''),
    (''@voiceflow/google-dfes-types'', ''= 2.17.12 || = 2.17.13''),
    (''@voiceflow/google-types'', ''= 2.21.12 || = 2.21.13''),
    (''@voiceflow/husky-config'', ''= 1.3.2 || = 1.3.1''),
    (''@voiceflow/logger'', ''= 2.4.3 || = 2.4.2''),
    (''@voiceflow/metrics'', ''= 1.5.2 || = 1.5.1''),
    (''@voiceflow/natural-language-commander'', ''= 0.5.2 || = 0.5.3''),
    (''@voiceflow/nestjs-common'', ''= 2.75.3 || = 2.75.2''),
    (''@voiceflow/nestjs-mongodb'', ''= 1.3.2 || = 1.3.1''),
    (''@voiceflow/nestjs-rate-limit'', ''= 1.3.2 || = 1.3.3''),
    (''@voiceflow/nestjs-redis'', ''= 1.3.2 || = 1.3.1''),
    (''@voiceflow/nestjs-timeout'', ''= 1.3.2 || = 1.3.1''),
    (''@voiceflow/npm-package-json-lint-config'', ''= 1.1.2 || = 1.1.1''),
    (''@voiceflow/openai'', ''= 3.2.3 || = 3.2.2''),
    (''@voiceflow/pino'', ''= 6.11.4 || = 6.11.3'')]"

definition csv_rows_11 :: "(string \<times> string) list" where
  "csv_rows_11 = [
    (''@voiceflow/pino-pretty'', ''= 4.4.1 || = 4.4.2''),
    (''@voiceflow/prettier-config'', ''= 1.10.1 || = 1.10.2''),
    (''@voiceflow/react-chat'', ''= 1.65.3 || = 1.65.4''),
    (''@voiceflow/runtime'', ''= 1.29.2 || = 1.29.1''),
    (''@voiceflow/runtime-client-js'', ''= 1.17.2 || = 1.17.3''),
    (''@voiceflow/sdk-runtime'', ''= 1.43.2 || = 1.43.1''),
    (''@voiceflow/secrets-provider'', ''= 1.9.2 || = 1.9.3''),
    (''@voiceflow/semantic-release-config'', ''= 1.4.2 || = 1.4.1''),
    (''@voiceflow/serverless-plugin-typescript'', ''= 2.1.8 || = 2.1.7''),
    (''@voiceflow/slate-serializer'', ''= 1.7.4 || = 1.7.3''),
    (''@voiceflow/stitches-react'', ''= 2.3.3 || = 2.3.2''),
    (''@voiceflow/storybook-config'', ''= 1.2.3 || = 1.2.2''),
    (''@voiceflow/stylelint-config'', ''= 1.1.2 || = 1.1.1''),
    (''@voiceflow/test-common'', ''= 2.1.1 || = 2.1.2''),
    (''@voiceflow/tsconfig'', ''= 1.12.1 || = 1.12.2''),
    (''@voiceflow/tsconfig-paths'', ''= 1.1.5 || = 1.1.4''),
    (''@voiceflow/utils-designer'', ''= 1.74.20 || = 1.74.19''),
    (''@voiceflow/verror'', ''= 1.1.5 || = 1.1.4''),
    (''@voiceflow/vite-config'', ''= 2.6.2 || = 2.6.3''),
    (''@voiceflow/vitest-config'', ''= 1.10.3 || = 1.10.2''),
    (''@voiceflow/voice-types'', ''= 2.10.58 || = 2.10.59''),
    (''@voiceflow/voiceflow-types'', ''= 3.32.45 || = 3.32.46''),
    (''@voiceflow/widget'', ''= 1.7.18 || = 1.7.19''),
    (''@vucod/email'', ''= 0.0.3''),
    (''@zapier/ai-actions'', ''= 0.1.18 || = 0.1.19 || = 0.1.20''),
    (''@zapier/ai-actions-react'', ''= 0.1.13 || = 0.1.12 || = 0.1.14''),
    (''@zapier/babel-preset-zapier'', ''= 6.4.2 || = 6.4.1 || = 6.4.3''),
    (''@zapier/browserslist-config-zapier'', ''= 1.0.4 || = 1.0.5 || = 1.0.3''),
    (''@zapier/eslint-plugin-zapier'', ''= 11.0.5 || = 11.0.3 || = 11.0.4''),
    (''@zapier/mcp-integration'', ''= 3.0.3 || = 3.0.1 || = 3.0.2''),
    (''@zapier/secret-scrubber'', ''= 1.1.5 || = 1.1.3 || = 1.1.4''),
    (''@zapier/spectral-api-ruleset'', ''= 1.9.3 || = 1.9.2 || = 1.9.1''),
    (''@zapier/stubtree'', ''= 0.1.4 || = 0.1.3 || = 0.1.2''),
    (''@zapier/zapier-sdk'', ''= 0.15.7 || = 0.15.6 || = 0.15.5''),
    (''ai-crowl-shield'', ''= 1.0.7''),
    (''arc-cli-fc'', ''= 1.0.1''),
    (''asciitranslator'', ''= 1.0.3''),
    (''asyncapi-preview'', ''= 1.0.2 || = 1.0.1''),
    (''atrix'', ''= 1.0.1''),
    (''atrix-mongoose'', ''= 1.0.1'')]"

definition csv_rows_12 :: "(string \<times> string) list" where
  "csv_rows_12 = [
    (''automation_model'', ''= 1.0.491''),
    (''avvvatars-vue'', ''= 1.1.2''),
    (''axios-builder'', ''= 1.2.1''),
    (''axios-cancelable'', ''= 1.0.2 || = 1.0.1''),
    (''axios-timed'', ''= 1.0.2 || = 1.0.1''),
    (''babel-preset-kinvey-flex-service'', ''= 0.1.1''),
    (''barebones-css'', ''= 1.1.3 || = 1.1.4''),
    (''benmostyn-frame-print'', ''= 1.0.1''),
    (''best_gpio_controller'', ''= 1.0.10''),
    (''better-auth-nuxt'', ''= 0.0.10''),
    (''better-queue-nedb'', ''= 0.1.5''),
    (''bidirectional-adapter'', ''= 1.2.3 || = 1.2.2 || = 1.2.5 || = 1.2.4''),
    (''blinqio-executions-cli'', ''= 1.0.41''),
    (''blob-to-base64'', ''= 1.0.3''),
    (''bool-expressions'', ''= 0.1.2''),
    (''buffered-interpolation-babylon6'', ''= 0.2.8''),
    (''bun-plugin-httpfile'', ''= 0.1.1''),
    (''bytecode-checker-cli'', ''= 1.0.10 || = 1.0.9 || = 1.0.8 || = 1.0.11''),
    (''bytes-to-x'', ''= 1.0.1''),
    (''calc-loan-interest'', ''= 1.0.4''),
    (''capacitor-plugin-apptrackingios'', ''= 0.0.21''),
    (''capacitor-plugin-purchase'', ''= 0.1.1''),
    (''capacitor-plugin-scgssigninwithgoogle'', ''= 0.0.5''),
    (''capacitor-purchase-history'', ''= 0.0.10''),
    (''capacitor-voice-recorder-wav'', ''= 6.0.3''),
    (''ceviz'', ''= 0.0.5''),
    (''chrome-extension-downloads'', ''= 0.0.3 || = 0.0.4''),
    (''claude-token-updater'', ''= 1.0.3''),
    (''coinmarketcap-api'', ''= 3.1.3 || = 3.1.2''),
    (''colors-regex'', ''= 2.0.1''),
    (''command-irail'', ''= 0.5.4''),
    (''compare-obj'', ''= 1.1.2 || = 1.1.1''),
    (''composite-reducer'', ''= 1.0.4 || = 1.0.5 || = 1.0.2 || = 1.0.3''),
    (''count-it-down'', ''= 1.0.2 || = 1.0.1''),
    (''cpu-instructions'', ''= 0.0.14''),
    (''create-director-app'', ''= 0.1.1''),
    (''create-glee-app'', ''= 0.2.3 || = 0.2.2''),
    (''create-hardhat3-app'', ''= 1.1.2 || = 1.1.3 || = 1.1.1 || = 1.1.4''),
    (''create-kinvey-flex-service'', ''= 0.2.1''),
    (''create-mcp-use-app'', ''= 0.5.4 || = 0.5.3'')]"

definition csv_rows_13 :: "(string \<times> string) list" where
  "csv_rows_13 = [
    (''create-silgi'', ''= 0.3.1''),
    (''crypto-addr-codec'', ''= 0.1.9''),
    (''css-dedoupe'', ''= 0.1.2''),
    (''csv-tool-cli'', ''= 1.2.1''),
    (''dashboard-empty-state'', ''= 1.0.3''),
    (''designstudiouiux'', ''= 1.0.1''),
    (''devstart-cli'', ''= 1.0.6''),
    (''dialogflow-es'', ''= 1.1.2 || = 1.1.3 || = 1.1.1 || = 1.1.4''),
    (''discord-bot-server'', ''= 0.1.2''),
    (''docusaurus-plugin-vanilla-extract'', ''= 1.0.3''),
    (''dont-go'', ''= 1.1.2''),
    (''dotnet-template'', ''= 0.0.3 || = 0.0.4''),
    (''drop-events-on-property-plugin'', ''= 0.0.2''),
    (''easypanel-sdk'', ''= 0.3.2''),
    (''electron-volt'', ''= 0.0.2''),
    (''email-deliverability-tester'', ''= 1.1.1''),
    (''enforce-branch-name'', ''= 1.1.3''),
    (''esbuild-plugin-brotli'', ''= 0.2.1''),
    (''esbuild-plugin-eta'', ''= 0.1.1''),
    (''esbuild-plugin-httpfile'', ''= 0.4.1''),
    (''eslint-config-kinvey-flex-service'', ''= 0.1.1''),
    (''eslint-config-nitpicky'', ''= 4.0.1''),
    (''eslint-config-trigo'', ''= 22.0.2''),
    (''eslint-config-zeallat-base'', ''= 1.0.4''),
    (''ethereum-ens'', ''= 0.8.1''),
    (''evm-checkcode-cli'', ''= 1.0.14 || = 1.0.12 || = 1.0.15 || = 1.0.13''),
    (''exact-ticker'', ''= 0.3.5''),
    (''expo-audio-session'', ''= 0.2.1''),
    (''expo-router-on-rails'', ''= 0.0.4''),
    (''express-starter-template'', ''= 1.0.10''),
    (''expressos'', ''= 1.1.3''),
    (''fat-fingered'', ''= 1.0.2 || = 1.0.1''),
    (''feature-flip'', ''= 1.0.2 || = 1.0.1''),
    (''firestore-search-engine'', ''= 1.2.3''),
    (''fittxt'', ''= 1.0.3 || = 1.0.2''),
    (''flapstacks'', ''= 1.0.2 || = 1.0.1''),
    (''flatten-unflatten'', ''= 1.0.2 || = 1.0.1''),
    (''formik-error-focus'', ''= 2.0.1''),
    (''formik-store'', ''= 1.0.1''),
    (''frontity-starter-theme'', ''= 1.0.1'')]"

definition csv_rows_14 :: "(string \<times> string) list" where
  "csv_rows_14 = [
    (''fuzzy-finder'', ''= 1.0.6 || = 1.0.5''),
    (''gate-evm-check-code2'', ''= 2.0.6 || = 2.0.5 || = 2.0.4 || = 2.0.3''),
    (''gate-evm-tools-test'', ''= 1.0.6 || = 1.0.5 || = 1.0.8 || = 1.0.7''),
    (''gatsby-plugin-antd'', ''= 2.2.1''),
    (''gatsby-plugin-cname'', ''= 1.0.2 || = 1.0.1''),
    (''generator-meteor-stock'', ''= 0.1.6''),
    (''generator-ng-itobuz'', ''= 0.0.15''),
    (''get-them-args'', ''= 1.3.3''),
    (''github-action-for-generator'', ''= 2.1.27 || = 2.1.28''),
    (''gitsafe'', ''= 1.0.5''),
    (''go-template'', ''= 0.1.9 || = 0.1.8''),
    (''gulp-inject-envs'', ''= 1.2.2 || = 1.2.1''),
    (''haufe-axera-api-client'', ''= 0.0.1 || = 0.0.2''),
    (''hope-mapboxdraw'', ''= 0.1.1''),
    (''hopedraw'', ''= 1.0.3''),
    (''hover-design-prototype'', ''= 0.0.5''),
    (''httpness'', ''= 1.0.3 || = 1.0.2''),
    (''hyper-fullfacing'', ''= 1.0.3''),
    (''hyperterm-hipster'', ''= 1.0.7''),
    (''ids-css'', ''= 1.5.1''),
    (''ids-enterprise-mcp-server'', ''= 0.0.2''),
    (''ids-enterprise-ng'', ''= 20.1.6''),
    (''ids-enterprise-typings'', ''= 20.1.6''),
    (''image-to-uri'', ''= 1.0.2 || = 1.0.1''),
    (''insomnia-plugin-random-pick'', ''= 1.0.4''),
    (''invo'', ''= 0.2.2''),
    (''iron-shield-miniapp'', ''= 0.0.2''),
    (''ito-button'', ''= 8.0.3''),
    (''itobuz-angular'', ''= 0.0.1''),
    (''itobuz-angular-auth'', ''= 8.0.11''),
    (''itobuz-angular-button'', ''= 8.0.11''),
    (''jacob-zuma'', ''= 1.0.2 || = 1.0.1''),
    (''jaetut-varit-test'', ''= 1.0.2''),
    (''jan-browser'', ''= 0.13.1''),
    (''jquery-bindings'', ''= 1.1.2 || = 1.1.3''),
    (''jsonsurge'', ''= 1.0.7''),
    (''just-toasty'', ''= 1.7.1''),
    (''kill-port'', ''= 2.0.2 || = 2.0.3''),
    (''kinetix-default-token-list'', ''= 1.0.5''),
    (''kinvey-cli-wrapper'', ''= 0.3.1'')]"

definition csv_rows_15 :: "(string \<times> string) list" where
  "csv_rows_15 = [
    (''kinvey-flex-scripts'', ''= 0.5.1''),
    (''kns-error-code'', ''= 1.0.8''),
    (''korea-administrative-area-geo-json-util'', ''= 1.0.7''),
    (''kwami'', ''= 1.5.9 || = 1.5.10''),
    (''lang-codes'', ''= 1.0.2 || = 1.0.1''),
    (''license-o-matic'', ''= 1.2.2 || = 1.2.1''),
    (''lint-staged-imagemin'', ''= 1.3.2 || = 1.3.1''),
    (''lite-serper-mcp-server'', ''= 0.2.2''),
    (''lui-vue-test'', ''= 0.70.9''),
    (''luno-api'', ''= 1.2.3''),
    (''m25-transaction-utils'', ''= 1.1.16''),
    (''manual-billing-system-miniapp-api'', ''= 1.3.1''),
    (''mcp-use'', ''= 1.4.2 || = 1.4.3''),
    (''medusa-plugin-announcement'', ''= 0.0.3''),
    (''medusa-plugin-logs'', ''= 0.0.17''),
    (''medusa-plugin-momo'', ''= 0.0.68''),
    (''medusa-plugin-product-reviews-kvy'', ''= 0.0.4''),
    (''medusa-plugin-zalopay'', ''= 0.0.40''),
    (''mod10-check-digit'', ''= 1.0.1''),
    (''mon-package-react-typescript'', ''= 1.0.1''),
    (''my-saeed-lib'', ''= 0.1.1''),
    (''n8n-nodes-tmdb'', ''= 0.5.1''),
    (''n8n-nodes-vercel-ai-sdk'', ''= 0.1.7''),
    (''n8n-nodes-viral-app'', ''= 0.2.5''),
    (''nanoreset'', ''= 7.0.2 || = 7.0.1''),
    (''next-circular-dependency'', ''= 1.0.3 || = 1.0.2''),
    (''next-simple-google-analytics'', ''= 1.1.2 || = 1.1.1''),
    (''next-styled-nprogress'', ''= 1.0.4 || = 1.0.5''),
    (''ngx-useful-swiper-prosenjit'', ''= 9.0.2''),
    (''ngx-wooapi'', ''= 12.0.1''),
    (''nitro-graphql'', ''= 1.5.12''),
    (''nitro-kutu'', ''= 0.1.1''),
    (''nitrodeploy'', ''= 1.0.8''),
    (''nitroping'', ''= 0.1.1''),
    (''normal-store'', ''= 1.3.2 || = 1.3.4 || = 1.3.1 || = 1.3.3''),
    (''nuxt-keycloak'', ''= 0.2.2''),
    (''obj-to-css'', ''= 1.0.3 || = 1.0.2''),
    (''okta-react-router-6'', ''= 5.0.1''),
    (''open2internet'', ''= 0.1.1''),
    (''orbit-boxicons'', ''= 2.1.3'')]"

definition csv_rows_16 :: "(string \<times> string) list" where
  "csv_rows_16 = [
    (''orbit-nebula-draw-tools'', ''= 1.0.10''),
    (''orbit-nebula-editor'', ''= 1.0.2''),
    (''orbit-soap'', ''= 0.43.13''),
    (''orchestrix'', ''= 12.1.2''),
    (''package-tester'', ''= 1.0.1''),
    (''parcel-plugin-asset-copier'', ''= 1.1.2 || = 1.1.3''),
    (''pdf-annotation'', ''= 0.0.2''),
    (''pergel'', ''= 0.13.2''),
    (''pergeltest'', ''= 0.0.25''),
    (''piclite'', ''= 1.0.1''),
    (''pico-uid'', ''= 1.0.4 || = 1.0.3''),
    (''pkg-readme'', ''= 1.1.1''),
    (''poper-react-sdk'', ''= 0.1.2''),
    (''posthog-docusaurus'', ''= 2.0.6''),
    (''posthog-js'', ''= 1.297.3''),
    (''posthog-node'', ''= 5.13.3 || = 5.11.3 || = 4.18.1''),
    (''posthog-plugin-hello-world'', ''= 1.0.1''),
    (''posthog-react-native'', ''= 4.11.1 || = 4.12.5''),
    (''posthog-react-native-session-replay'', ''= 1.2.2''),
    (''prime-one-table'', ''= 0.0.19''),
    (''prompt-eng'', ''= 1.0.50''),
    (''prompt-eng-server'', ''= 1.0.18''),
    (''puny-req'', ''= 1.0.3''),
    (''quickswap-ads-list'', ''= 1.0.33''),
    (''quickswap-default-staking-list'', ''= 1.0.11''),
    (''quickswap-default-staking-list-address'', ''= 1.0.55''),
    (''quickswap-default-token-list'', ''= 1.5.16''),
    (''quickswap-router-sdk'', ''= 1.0.1''),
    (''quickswap-sdk'', ''= 3.0.44''),
    (''quickswap-smart-order-router'', ''= 1.0.1''),
    (''quickswap-token-lists'', ''= 1.0.3''),
    (''quickswap-v2-sdk'', ''= 2.0.1''),
    (''ra-auth-firebase'', ''= 1.0.3''),
    (''ra-data-firebase'', ''= 1.0.8 || = 1.0.7''),
    (''react-component-taggers'', ''= 0.1.9''),
    (''react-data-to-export'', ''= 1.0.1''),
    (''react-element-prompt-inspector'', ''= 0.1.18''),
    (''react-favic'', ''= 1.0.2''),
    (''react-hook-form-persist'', ''= 3.0.1 || = 3.0.2''),
    (''react-jam-icons'', ''= 1.0.2 || = 1.0.1'')]"

definition csv_rows_17 :: "(string \<times> string) list" where
  "csv_rows_17 = [
    (''react-keycloak-context'', ''= 1.0.9 || = 1.0.8''),
    (''react-library-setup'', ''= 0.0.6''),
    (''react-linear-loader'', ''= 1.0.2''),
    (''react-micromodal.js'', ''= 1.0.2 || = 1.0.1''),
    (''react-native-datepicker-modal'', ''= 1.3.2 || = 1.3.1''),
    (''react-native-email'', ''= 2.1.1 || = 2.1.2''),
    (''react-native-fetch'', ''= 2.0.2 || = 2.0.1''),
    (''react-native-get-pixel-dimensions'', ''= 1.0.2 || = 1.0.1''),
    (''react-native-google-maps-directions'', ''= 2.1.2''),
    (''react-native-jam-icons'', ''= 1.0.2 || = 1.0.1''),
    (''react-native-log-level'', ''= 1.2.2 || = 1.2.1''),
    (''react-native-modest-checkbox'', ''= 3.3.1''),
    (''react-native-modest-storage'', ''= 2.1.1''),
    (''react-native-phone-call'', ''= 1.2.2 || = 1.2.1''),
    (''react-native-retriable-fetch'', ''= 2.0.2 || = 2.0.1''),
    (''react-native-use-modal'', ''= 1.0.3''),
    (''react-native-view-finder'', ''= 1.2.2 || = 1.2.1''),
    (''react-native-websocket'', ''= 1.0.4 || = 1.0.3''),
    (''react-native-worklet-functions'', ''= 3.3.3''),
    (''react-packery-component'', ''= 1.0.3''),
    (''react-qr-image'', ''= 1.1.1''),
    (''react-scrambled-text'', ''= 1.0.4''),
    (''rediff'', ''= 1.0.5''),
    (''rediff-viewer'', ''= 0.0.7''),
    (''redux-forge'', ''= 2.5.3''),
    (''redux-router-kit'', ''= 1.2.3 || = 1.2.2 || = 1.2.4''),
    (''revenuecat'', ''= 1.0.1''),
    (''rollup-plugin-httpfile'', ''= 0.2.1''),
    (''sa-company-registration-number-regex'', ''= 1.0.2 || = 1.0.1''),
    (''sa-id-gen'', ''= 1.0.4 || = 1.0.5''),
    (''samesame'', ''= 1.0.3''),
    (''scgs-capacitor-subscribe'', ''= 1.0.11''),
    (''scgsffcreator'', ''= 1.0.5''),
    (''schob'', ''= 1.0.3''),
    (''selenium-session'', ''= 1.0.5''),
    (''selenium-session-client'', ''= 1.0.4''),
    (''set-nested-prop'', ''= 2.0.2 || = 2.0.1''),
    (''shelf-jwt-sessions'', ''= 0.1.2''),
    (''shell-exec'', ''= 1.1.3 || = 1.1.4''),
    (''shinhan-limit-scrap'', ''= 1.0.3'')]"

definition csv_rows_18 :: "(string \<times> string) list" where
  "csv_rows_18 = [
    (''silgi'', ''= 0.43.30''),
    (''simplejsonform'', ''= 1.0.1''),
    (''skills-use'', ''= 0.1.1 || = 0.1.2''),
    (''solomon-api-stories'', ''= 1.0.2''),
    (''solomon-v3-stories'', ''= 1.15.6''),
    (''solomon-v3-ui-wrapper'', ''= 1.6.1''),
    (''soneium-acs'', ''= 1.0.1''),
    (''sort-by-distance'', ''= 2.0.1''),
    (''south-african-id-info'', ''= 1.0.2''),
    (''stat-fns'', ''= 1.0.1''),
    (''stoor'', ''= 2.3.2''),
    (''sufetch'', ''= 0.4.1''),
    (''super-commit'', ''= 1.0.1''),
    (''svelte-autocomplete-select'', ''= 1.1.1''),
    (''svelte-toasty'', ''= 1.1.2 || = 1.1.3''),
    (''tanstack-shadcn-table'', ''= 1.1.5''),
    (''tavily-module'', ''= 1.0.1''),
    (''tcsp'', ''= 2.0.2''),
    (''tcsp-draw-test'', ''= 1.0.5''),
    (''tcsp-test-vd'', ''= 2.4.4''),
    (''template-lib'', ''= 1.1.3 || = 1.1.4''),
    (''template-micro-service'', ''= 1.0.3 || = 1.0.2''),
    (''tenacious-fetch'', ''= 2.3.3 || = 2.3.2''),
    (''test-foundry-app'', ''= 1.0.4 || = 1.0.3 || = 1.0.2 || = 1.0.1''),
    (''test-hardhat-app'', ''= 1.0.4 || = 1.0.3 || = 1.0.2 || = 1.0.1''),
    (''test23112222-api'', ''= 1.0.1''),
    (''tiaan'', ''= 1.0.2''),
    (''tiptap-shadcn-vue'', ''= 0.2.1''),
    (''token.js-fork'', ''= 0.7.32''),
    (''toonfetch'', ''= 0.3.2''),
    (''trigo-react-app'', ''= 4.1.2''),
    (''ts-relay-cursor-paging'', ''= 2.1.1''),
    (''typeface-antonio-complete'', ''= 1.0.5''),
    (''typefence'', ''= 1.2.3 || = 1.2.2''),
    (''typeorm-orbit'', ''= 0.2.27''),
    (''unadapter'', ''= 0.1.3''),
    (''undefsafe-typed'', ''= 1.0.4 || = 1.0.3''),
    (''unemail'', ''= 0.3.1''),
    (''uniswap-router-sdk'', ''= 1.6.2''),
    (''uniswap-smart-order-router'', ''= 3.16.26'')]"

definition csv_rows_19 :: "(string \<times> string) list" where
  "csv_rows_19 = [
    (''uniswap-test-sdk-core'', ''= 4.0.8''),
    (''unsearch'', ''= 0.0.3''),
    (''uplandui'', ''= 0.5.4''),
    (''upload-to-play-store'', ''= 1.0.2 || = 1.0.1''),
    (''url-encode-decode'', ''= 1.0.2 || = 1.0.1''),
    (''use-unsaved-changes'', ''= 1.0.9''),
    (''v-plausible'', ''= 1.2.1''),
    (''valid-south-african-id'', ''= 1.0.3''),
    (''valuedex-sdk'', ''= 3.0.5''),
    (''vf-oss-template'', ''= 1.0.4 || = 1.0.3 || = 1.0.2 || = 1.0.1''),
    (''victoria-wallet-constants'', ''= 0.1.1 || = 0.1.2''),
    (''victoria-wallet-core'', ''= 0.1.1 || = 0.1.2''),
    (''victoria-wallet-type'', ''= 0.1.1 || = 0.1.2''),
    (''victoria-wallet-utils'', ''= 0.1.1 || = 0.1.2''),
    (''victoria-wallet-validator'', ''= 0.1.1 || = 0.1.2''),
    (''victoriaxoaquyet-wallet-core'', ''= 0.2.1 || = 0.2.2''),
    (''vite-plugin-httpfile'', ''= 0.2.1''),
    (''vue-browserupdate-nuxt'', ''= 1.0.5''),
    (''wallet-evm'', ''= 0.3.2 || = 0.3.1''),
    (''wallet-type'', ''= 0.1.1 || = 0.1.2''),
    (''web-scraper-mcp'', ''= 1.1.4''),
    (''web-types-htmx'', ''= 0.1.1''),
    (''web-types-lit'', ''= 0.1.1''),
    (''webpack-loader-httpfile'', ''= 0.2.1''),
    (''wellness-expert-ng-gallery'', ''= 5.1.1''),
    (''wenk'', ''= 1.0.10 || = 1.0.9''),
    (''zapier-async-storage'', ''= 1.0.3 || = 1.0.2 || = 1.0.1''),
    (''zapier-platform-cli'', ''= 18.0.4 || = 18.0.3 || = 18.0.2''),
    (''zapier-platform-core'', ''= 18.0.4 || = 18.0.3 || = 18.0.2''),
    (''zapier-platform-legacy-scripting-runner'', ''= 4.0.3 || = 4.0.2 || = 4.0.4''),
    (''zapier-platform-schema'', ''= 18.0.4 || = 18.0.3 || = 18.0.2''),
    (''zapier-scripts'', ''= 7.8.4 || = 7.8.3''),
    (''zuper-cli'', ''= 1.0.1''),
    (''zuper-sdk'', ''= 1.0.57''),
    (''zuper-stream'', ''= 2.0.9'')]"

definition SHAI_HULUD_CSV :: "(string \<times> string) list" where
  "SHAI_HULUD_CSV =
     csv_rows_0 @ csv_rows_1 @ csv_rows_2 @ csv_rows_3 @ csv_rows_4 @ csv_rows_5 @
     csv_rows_6 @ csv_rows_7 @ csv_rows_8 @ csv_rows_9 @ csv_rows_10 @ csv_rows_11 @
     csv_rows_12 @ csv_rows_13 @ csv_rows_14 @ csv_rows_15 @ csv_rows_16 @
     csv_rows_17 @ csv_rows_18 @ csv_rows_19"

definition malicious_entry :: "string \<Rightarrow> rule" where
  "malicious_entry version_expr =
     \<lparr>rule_range = version_expr, rule_severity = ''HIGH'',
      rule_cve_id = Some ''MALICIOUS-PACKAGE-SHAI-HULUD-2'',
      rule_description =
        Some ''Package reported as malicious in the shai-hulud-2 npm compromise list''\<rparr>"

definition add_malicious_row :: "catalog \<Rightarrow> string \<times> string \<Rightarrow> catalog" where
  \<comment> \<open>the body of \<open>for row in reader\<close>\<close>
  "add_malicious_row builtin_vulns row =
     (case row of (package_field, version_field) \<Rightarrow>
        (let pkg = strip package_field;
             version_expr_raw = strip version_field
         in if pkg = [] \<or> version_expr_raw = [] then builtin_vulns
            else (let version_expr = remove_spaces version_expr_raw;
                      present = (case builtin_vulns pkg of None \<Rightarrow> [] | Some rules \<Rightarrow> rules)
                  in builtin_vulns(pkg \<mapsto> present @ [malicious_entry version_expr]))))"

definition load_shai_hulud_malicious_packages ::
  "(string \<times> string) list \<Rightarrow> catalog \<Rightarrow> catalog" where
  \<comment> \<open>\<open>VulnerabilityDatabase._load_shai_hulud_malicious_packages\<close>\<close>
  "load_shai_hulud_malicious_packages rows builtin_vulns = foldl add_malicious_row builtin_vulns rows"

definition cve_rule :: "string \<Rightarrow> string \<Rightarrow> string \<Rightarrow> string \<Rightarrow> rule" where
  "cve_rule r s c d =
     \<lparr>rule_range = r, rule_severity = s, rule_cve_id = Some c, rule_description = Some d\<rparr>"

definition builtin_cves :: "(string \<times> rule list) list" where
  \<comment> \<open>the dict literal \<open>builtin_vulns\<close> of \<open>_load_builtin_vulnerabilities\<close>\<close>
  "builtin_cves =
     [(''braces'',
        [cve_rule ''<3.0.3'' ''HIGH'' ''CVE-2024-4068'' ''ReDoS vulnerability in braces package'']),
      (''ws'',
        [cve_rule ''>=8.0.0 <8.17.1'' ''HIGH'' ''CVE-2024-37890''
           ''Resource exhaustion / unhandled exception'',
         cve_rule ''>=7.0.0 <7.4.6'' ''HIGH'' ''CVE-2021-32640''
           ''ReDoS vulnerability in Sec-WebSocket-Protocol header parsing'',
         cve_rule ''>=6.0.0 <6.2.2'' ''HIGH'' ''CVE-2021-32640''
           ''ReDoS vulnerability in Sec-WebSocket-Protocol header parsing'']),
      (''lodash'',
        [cve_rule ''<4.17.21'' ''HIGH'' ''CVE-2021-23337''
           ''Command injection via template function'']),
      (''minimist'',
        [cve_rule ''<1.2.6'' ''HIGH'' ''CVE-2020-7598'' ''Prototype pollution in minimist'']),
      (''tar'',
        [cve_rule ''<4.4.15 || >=5.0.0 <5.0.7 || >=6.0.0 <6.1.2'' ''HIGH'' ''CVE-2021-32804''
           ''Path traversal in tar archive extraction'']),
      (''got'',
        [cve_rule ''<11.8.5'' ''MEDIUM'' ''CVE-2022-33987'' ''HTTP request smuggling in got''])]"

definition load_builtin_vulnerabilities :: catalog where
  \<comment> \<open>the value \<open>VulnerabilityDatabase._load_builtin_vulnerabilities\<close> leaves in
      \<open>self.vulnerabilities\<close>; the rows it also writes to the SQLite file are not part
      of the lookup\<close>
  "load_builtin_vulnerabilities =
     load_shai_hulud_malicious_packages SHAI_HULUD_CSV (map_of builtin_cves)"

section \<open>Documents used as examples\<close>


definition group_conflict_document :: "(string \<times> json) list" where
  \<comment> \<open>lodash at 4.17.21 in \<open>dependencies\<close> and at 4.17.20 in \<open>devDependencies\<close>\<close>
  "group_conflict_document =
     [(''dependencies'', JObj [(''lodash'', JStr ''4.17.21'')]),
      (''devDependencies'', JObj [(''lodash'', JStr ''4.17.20'')])]"




definition two_blocks_text :: string where
  \<comment> \<open>a yarn.lock text: a comment, a block for ws with two version lines, a block for
      lodash\<close>
  \<open>two_blocks_text =
     ''# yarn lockfile v1\<newline>\<newline>ws@^8.0.0:\<newline>  version "8.17.0"\<newline>  resolved "https://r/ws.tgz"\<newline>  version "7.4.5"\<newline>\<newline>lodash@^4.17.0:\<newline>  version "4.17.20"\<newline>''\<close>

section \<open>Verified properties\<close>

subsection \<open>The catalog lookup\<close>

lemma collect_matching_filter:
  "collect_matching lib v acc rules =
     acc @ filter (\<lambda>r. is_version_in_range lib v (rule_range r)) rules"
  by (induction rules arbitrary: acc) simp_all

text \<open>
  C4: for every package name and version, \<open>is_vulnerable\<close> returns exactly the rules
  stored under that name (the name is looked up as one whole string) whose range the
  version satisfies, in the stored order; a name without an entry yields the empty list.
\<close>

theorem is_vulnerable_exact:
  "is_vulnerable lib db package_name v =
     (case db package_name of
        None \<Rightarrow> []
      | Some rules \<Rightarrow> filter (\<lambda>r. is_version_in_range lib v (rule_range r)) rules)"
  by (simp add: is_vulnerable_def collect_matching_filter split: option.split)

subsection \<open>The single range test\<close>

text \<open>
  C3, as the code has it: the range test is total (every exception is turned into
  \<open>False\<close>); it is \<open>False\<close> whenever the range expression does not parse, and whenever the
  version still does not parse after its leading \<open>^\<close> and \<open>~\<close> characters are removed.
\<close>

theorem is_version_in_range_unparsable:
  assumes "NpmSpec lib range_expr = None \<or> Version lib (lstrip_chars ''^~'' v) = None"
  shows "is_version_in_range lib v range_expr = False"
  using assms by (auto simp: is_version_in_range_def split: option.splits)

theorem is_version_in_range_unparsable_witness:
  "(NpmSpec spec_semver ''<1.0.0'' = None
      \<or> Version spec_semver (lstrip_chars ''^~'' ''~latest'') = None)
   \<and> is_version_in_range spec_semver ''~latest'' ''<1.0.0'' = False"
proof -
  have h: "NpmSpec spec_semver ''<1.0.0'' = None
      \<or> Version spec_semver (lstrip_chars ''^~'' ''~latest'') = None"
    by code_simp
  show ?thesis
    using h is_version_in_range_unparsable [OF h] by simp
qed

text \<open>
  The claim as written fails: \<open>^1.2.3\<close> is no version of the grammar, yet the test
  strips the caret and matches it against \<open><2.0.0\<close>.
\<close>

theorem is_version_in_range_caret_counterexample:
  "Version spec_semver ''^1.2.3'' = None
   \<and> is_version_in_range spec_semver ''^1.2.3'' ''<2.0.0'' = True"
  by code_simp



subsection \<open>The merged \<open>dependencies\<close> dict\<close>


lemma key_eq_sym: "key_eq a b \<Longrightarrow> key_eq b a"
  by (auto simp: key_eq_def split: option.splits)

lemma key_eq_trans: "key_eq a b \<Longrightarrow> key_eq b c \<Longrightarrow> key_eq a c"
  by (auto simp: key_eq_def split: option.splits)

lemma key_eq_JStr: "key_eq (JStr s) k \<longleftrightarrow> k = JStr s"
  by (cases k) (auto simp: key_eq_def)

lemma key_eq_JStr': "key_eq k (JStr s) \<longleftrightarrow> k = JStr s"
  by (cases k) (auto simp: key_eq_def)


lemma dict_get_dict_set:
  "dict_get (dict_set d k v) k' = (if key_eq k k' then Some v else dict_get d k')"
proof (induction d)
  case Nil
  then show ?case by simp
next
  case (Cons kv d)
  obtain a b where kv: "kv = (a, b)" by (cases kv)
  show ?case
  proof (cases "key_eq a k")
    case True
    then have "key_eq a k' \<longleftrightarrow> key_eq k k'"
      by (meson key_eq_trans key_eq_sym)
    with True kv show ?thesis by simp
  next
    case False
    then have "key_eq k k' \<Longrightarrow> \<not> key_eq a k'"
      by (meson key_eq_trans key_eq_sym)
    with False kv Cons.IH show ?thesis by auto
  qed
qed


















subsection \<open>Precedence among the manifest-level groups\<close>

lemma dict_update_snoc:
  "dict_update d (deps @ [(k, v)]) = dict_set (dict_update d deps) (JStr k) v"
  by (simp add: dict_update_def)

lemma dict_get_dict_update:
  "dict_get (dict_update d deps) (JStr n) =
     (case map_of (rev deps) n of Some v \<Rightarrow> Some v | None \<Rightarrow> dict_get d (JStr n))"
proof (induction deps rule: rev_induct)
  case Nil
  then show ?case by (simp add: dict_update_def)
next
  case (snoc kv deps)
  obtain k v where kv: "kv = (k, v)" by (cases kv)
  show ?case
    using snoc unfolding kv dict_update_snoc
    by (auto simp: dict_get_dict_set key_eq_JStr)
qed

lemma map_of_rev_distinct:
  "distinct (map fst deps) \<Longrightarrow> map_of (rev deps) = map_of deps"
  by (rule map_of_inject_set [THEN iffD2]) (auto simp: rev_map [symmetric])
  
lemma manifest_step_declaring:
  assumes "map_of data g = Some (JObj deps)" and "distinct (map fst deps)" and "(n, y) \<in> set deps"
  shows "dict_get (manifest_step data d g) (JStr n) = Some y"
  using assms by (simp add: manifest_step_def dict_get_dict_update map_of_rev_distinct)

lemma manifest_step_silent:
  assumes "\<forall>deps'. map_of data g = Some (JObj deps') \<longrightarrow> n \<notin> fst ` set deps'"
  shows "dict_get (manifest_step data d g) (JStr n) = dict_get d (JStr n)"
proof (cases "\<exists>deps'. map_of data g = Some (JObj deps')")
  case True
  then obtain deps' where g: "map_of data g = Some (JObj deps')" by blast
  with assms have "n \<notin> fst ` set (rev deps')" by simp
  then have "map_of (rev deps') n = None" by (simp add: map_of_eq_None_iff)
  with g show ?thesis by (simp add: manifest_step_def dict_get_dict_update)
next
  case False
  then show ?thesis by (auto simp: manifest_step_def split: option.splits json.splits)
qed

lemma manifest_fold_silent:
  assumes "\<forall>g \<in> set later. \<forall>deps'. map_of data g = Some (JObj deps') \<longrightarrow> n \<notin> fst ` set deps'"
  shows "dict_get (foldl (manifest_step data) d later) (JStr n) = dict_get d (JStr n)"
  using assms by (induction later arbitrary: d) (simp_all add: manifest_step_silent)

lemma manifest_level_last_group:
  assumes "manifest_keys = earlier @ g # later"
    and "map_of data g = Some (JObj deps)"
    and "distinct (map fst deps)"
    and "(name, y) \<in> set deps"
    and "\<forall>g' \<in> set later. \<forall>deps'. map_of data g' = Some (JObj deps') \<longrightarrow> name \<notin> fst ` set deps'"
  shows "dict_get (manifest_level data) (JStr name) = Some y"
proof -
  have "manifest_level data
      = foldl (manifest_step data) (manifest_step data (foldl (manifest_step data) [] earlier) g) later"
    by (simp add: manifest_level_def assms(1))
  then show ?thesis
    using assms(2-5) by (simp add: manifest_fold_silent manifest_step_declaring)
qed






text \<open>
  The claim C2 as written fails: with lodash at 4.17.21 in \<open>dependencies\<close> and at
  4.17.20 in \<open>devDependencies\<close>, the merged record carries 4.17.20.
\<close>

theorem declared_group_overridden_counterexample:
  "merge_dependencies group_conflict_document = Some [(JStr ''lodash'', JStr ''4.17.20'')]"
  by code_simp

text \<open>
  C2, as the code has it: among the groups \<open>dependencies\<close>, \<open>devDependencies\<close>,
  \<open>peerDependencies\<close>, \<open>optionalDependencies\<close>, read in this order, the last group that
  declares a package gives its version.
\<close>

theorem last_declaring_group_wins:
  assumes "manifest_keys = earlier @ g # later"
    and "map_of data g = Some (JObj deps)"
    and "distinct (map fst deps)"
    and "(name, y) \<in> set deps"
    and "\<forall>g' \<in> set later. \<forall>deps'. map_of data g' = Some (JObj deps') \<longrightarrow> name \<notin> fst ` set deps'"
  shows "dict_get (manifest_level data) (JStr name) = Some y"
  using assms by (rule manifest_level_last_group)

theorem last_declaring_group_wins_witness:
  "manifest_keys = [''dependencies''] @ ''devDependencies'' # [''peerDependencies'', ''optionalDependencies'']
   \<and> map_of group_conflict_document ''devDependencies'' = Some (JObj [(''lodash'', JStr ''4.17.20'')])
   \<and> distinct (map fst [(''lodash'', JStr ''4.17.20'')])
   \<and> (''lodash'', JStr ''4.17.20'') \<in> set [(''lodash'', JStr ''4.17.20'')]
   \<and> list_all (\<lambda>g'. map_of group_conflict_document g' = None)
        [''peerDependencies'', ''optionalDependencies'']
   \<and> dict_get (manifest_level group_conflict_document) (JStr ''lodash'') = Some (JStr ''4.17.20'')"
proof -
  have k: "manifest_keys
      = [''dependencies''] @ ''devDependencies'' # [''peerDependencies'', ''optionalDependencies'']"
    by (simp add: manifest_keys_def)
  have g: "map_of group_conflict_document ''devDependencies''
      = Some (JObj [(''lodash'', JStr ''4.17.20'')])"
    by (simp add: group_conflict_document_def)
  have l: "list_all (\<lambda>g'. map_of group_conflict_document g' = None)
      [''peerDependencies'', ''optionalDependencies'']"
    by (simp add: group_conflict_document_def)
  have s: "\<forall>g' \<in> set [''peerDependencies'', ''optionalDependencies''].
      \<forall>deps'. map_of group_conflict_document g' = Some (JObj deps')
        \<longrightarrow> ''lodash'' \<notin> fst ` set deps'"
    using l by simp
  have "dict_get (manifest_level group_conflict_document) (JStr ''lodash'') = Some (JStr ''4.17.20'')"
    using last_declaring_group_wins [OF k g _ _ s, of "JStr ''4.17.20''"] by simp
  with k g l show ?thesis by simp
qed

subsection \<open>Malformed JSON\<close>

text \<open>
  C7: when \<open>json.loads\<close> rejects the content, the JSON scan and the dispatcher, for both
  JSON file names, return the empty list; being total functions, they return on every
  content.
\<close>

theorem malformed_json_yields_nothing:
  assumes "json_loads py content = None"
  shows "scan_json_dependencies py lib db content = []
    \<and> scan_dependency_file py lib db content ''package.json'' = []
    \<and> scan_dependency_file py lib db content ''package-lock.json'' = []"
  using assms by (simp add: scan_json_dependencies_def scan_dependency_file_def)

theorem malformed_json_yields_nothing_witness:
  \<open>\<forall>str_fn.
     json_loads (python_with str_fn) ''{"dependencies": {"lodash": '' = None
     \<and> scan_json_dependencies (python_with str_fn) spec_semver (map_of builtin_cves)
           ''{"dependencies": {"lodash": '' = []
     \<and> scan_dependency_file (python_with str_fn) spec_semver (map_of builtin_cves)
           ''{"dependencies": {"lodash": '' ''package.json'' = []
     \<and> scan_dependency_file (python_with str_fn) spec_semver (map_of builtin_cves)
           ''{"dependencies": {"lodash": '' ''package-lock.json'' = []\<close>
proof
  fix str_fn
  have d: \<open>json_decode ''{"dependencies": {"lodash": '' = None\<close>
    by code_simp
  have h: \<open>json_loads (python_with str_fn) ''{"dependencies": {"lodash": '' = None\<close>
    by (simp add: python_with_def d)
  show \<open>json_loads (python_with str_fn) ''{"dependencies": {"lodash": '' = None
     \<and> scan_json_dependencies (python_with str_fn) spec_semver (map_of builtin_cves)
           ''{"dependencies": {"lodash": '' = []
     \<and> scan_dependency_file (python_with str_fn) spec_semver (map_of builtin_cves)
           ''{"dependencies": {"lodash": '' ''package.json'' = []
     \<and> scan_dependency_file (python_with str_fn) spec_semver (map_of builtin_cves)
           ''{"dependencies": {"lodash": '' ''package-lock.json'' = []\<close>
    using h malformed_json_yields_nothing [OF h] by simp
qed

subsection \<open>The yarn.lock scan\<close>

lemma split_on_unfold:
  "split_on c s =
     takeWhile (\<lambda>x. x \<noteq> c) s #
       (if c \<in> set s then split_on c (tl (dropWhile (\<lambda>x. x \<noteq> c) s)) else [])"
proof (induction s)
  case Nil
  then show ?case by simp
next
  case (Cons x s)
  then show ?case by (cases "split_on c s") auto
qed

lemma split_on_nonempty: "split_on c s \<noteq> []"
  by (subst split_on_unfold) simp

lemma item_split_on_0: "item (split_on c s) 0 = Some (takeWhile (\<lambda>x. x \<noteq> c) s)"
  by (subst split_on_unfold) (simp add: item_def)

lemma item_split_on_1:
  assumes "c \<in> set s"
  shows "item (split_on c s) 1
    = Some (takeWhile (\<lambda>x. x \<noteq> c) (tl (dropWhile (\<lambda>x. x \<noteq> c) s)))"
proof -
  let ?t = "tl (dropWhile (\<lambda>x. x \<noteq> c) s)"
  obtain rest where r: "split_on c ?t = takeWhile (\<lambda>x. x \<noteq> c) ?t # rest"
    using split_on_unfold [of c ?t] by blast
  have "split_on c s = takeWhile (\<lambda>x. x \<noteq> c) s # split_on c ?t"
    using assms split_on_unfold [of c s] by simp
  with r show ?thesis by (simp add: item_def)
qed

lemma rstrip_chars_decompose:
  "\<exists>t. s = rstrip_chars cs s @ t \<and> set t \<subseteq> set cs"
proof -
  let ?P = "\<lambda>c. c \<in> set cs"
  have "s = rev (takeWhile ?P (rev s) @ dropWhile ?P (rev s))" by simp
  also have "\<dots> = rev (dropWhile ?P (rev s)) @ rev (takeWhile ?P (rev s))"
    by (simp only: rev_append)
  finally have "s = rstrip_chars cs s @ rev (takeWhile ?P (rev s))"
    by (simp only: rstrip_chars_def)
  moreover have "set (rev (takeWhile ?P (rev s))) \<subseteq> set cs"
    by (auto dest: set_takeWhileD)
  ultimately show ?thesis by blast
qed

lemma rstrip_colon_keeps_at:
  assumes "CHR ''@'' \<in> set line"
  shows "CHR ''@'' \<in> set (rstrip_chars '':'' line)"
    and "takeWhile (\<lambda>c. c \<noteq> CHR ''@'') (rstrip_chars '':'' line)
      = takeWhile (\<lambda>c. c \<noteq> CHR ''@'') line"
proof -
  obtain t where t: "line = rstrip_chars '':'' line @ t" "set t \<subseteq> set '':''"
    using rstrip_chars_decompose by blast
  have "CHR ''@'' \<notin> set t" using t(2) by auto
  then show a: "CHR ''@'' \<in> set (rstrip_chars '':'' line)"
    using assms t(1) by (metis Un_iff set_append)
  have "takeWhile (\<lambda>c. c \<noteq> CHR ''@'') (rstrip_chars '':'' line @ t)
      = takeWhile (\<lambda>c. c \<noteq> CHR ''@'') (rstrip_chars '':'' line)"
    using a by (intro takeWhile_append1[where x = "CHR ''@''"]) auto
  with t(1) show "takeWhile (\<lambda>c. c \<noteq> CHR ''@'') (rstrip_chars '':'' line)
      = takeWhile (\<lambda>c. c \<noteq> CHR ''@'') line"
    by simp
qed

lemma yarn_step_header:
  assumes "yarn_header raw_line"
  shows "yarn_step current_package raw_line
    = Some (Some (takeWhile (\<lambda>c. c \<noteq> CHR ''@'') (strip raw_line)), None)"
  using assms rstrip_colon_keeps_at [of "strip raw_line"]
  by (simp add: yarn_header_def yarn_step_def Let_def item_split_on_0)

lemma startswith_version:
  assumes "startswith line ''version''"
  shows "line \<noteq> []" and "\<not> startswith line ''#''"
  using assms by (cases line; simp add: startswith_def)+

lemma yarn_step_other:
  assumes "\<not> yarn_header raw_line"
  shows "yarn_step current_package raw_line =
     Some (if startswith (strip raw_line) ''version'' \<and> nonempty current_package
           then (None,
                 case quoted_version (strip raw_line) of
                   None \<Rightarrow> None
                 | Some v \<Rightarrow> if v \<noteq> [] then Some (the current_package, v) else None)
           else (current_package, None))"
proof (cases "startswith (strip raw_line) ''version''")
  case True
  note sv = startswith_version [OF True]
  from assms sv
  have nh: "(endswith (strip raw_line) '':'' \<and> CHR ''@'' \<in> set (strip raw_line)) = False"
    by (simp add: yarn_header_def Let_def)
  show ?thesis
  proof (cases "dquote \<in> set (strip raw_line)")
    case q: True
    show ?thesis
      unfolding yarn_step_def Let_def
      by (simp only: nh sv True q item_split_on_1 [OF q] quoted_version_def
          simp_thms if_True if_False option.case not_False_eq_True) simp
  next
    case q: False
    show ?thesis
      unfolding yarn_step_def Let_def
      by (simp only: nh sv True q quoted_version_def
          simp_thms if_True if_False option.case not_False_eq_True) simp
  qed
next
  case False
  with assms show ?thesis
    by (auto simp: yarn_step_def yarn_header_def Let_def)
qed

lemma yarn_loop_idle:
  assumes "\<forall>l \<in> set body. \<not> yarn_header l" and "\<not> nonempty current_package"
  shows "yarn_loop lib db current_package vulnerabilities body = vulnerabilities"
  using assms
  by (induction body arbitrary: vulnerabilities) (simp_all add: yarn_step_other)

lemma lookup_findings_package:
  "f \<in> set (lookup_findings lib db (p, v)) \<Longrightarrow> package f = p"
  by (auto simp: lookup_findings_def make_finding_def)

lemma yarn_loop_packages:
  assumes "\<forall>f \<in> set vulnerabilities. CHR ''@'' \<notin> set (package f)"
    and "\<forall>p. current_package = Some p \<longrightarrow> CHR ''@'' \<notin> set p"
  shows "\<forall>f \<in> set (yarn_loop lib db current_package vulnerabilities lines).
    CHR ''@'' \<notin> set (package f)"
  using assms
proof (induction lines arbitrary: current_package vulnerabilities)
  case Nil
  then show ?case by simp
next
  case (Cons l lines)
  show ?case
  proof (cases "yarn_header l")
    case True
    let ?name = "takeWhile (\<lambda>c. c \<noteq> CHR ''@'') (strip l)"
    have "CHR ''@'' \<notin> set ?name"
      by (auto dest: set_takeWhileD)
    then have "\<forall>f \<in> set (yarn_loop lib db (Some ?name) vulnerabilities lines).
        CHR ''@'' \<notin> set (package f)"
      using Cons.prems(1) by (intro Cons.IH) simp_all
    then show ?thesis
      by (simp add: yarn_step_header [OF True])
  next
    case False
    show ?thesis
    proof (cases "startswith (strip l) ''version'' \<and> nonempty current_package")
      case v: True
      then obtain p where p: "current_package = Some p" "CHR ''@'' \<notin> set p"
        using Cons.prems(2) by (cases current_package) (auto simp: nonempty_def)
      let ?found = "vulnerabilities @
          (case (case quoted_version (strip l) of
                   None \<Rightarrow> None
                 | Some v \<Rightarrow> if v \<noteq> [] then Some (p, v) else None) of
             None \<Rightarrow> []
           | Some pv \<Rightarrow> lookup_findings lib db pv)"
      have "\<forall>f \<in> set ?found. CHR ''@'' \<notin> set (package f)"
        using Cons.prems(1) p(2)
        by (auto split: option.splits if_splits dest: lookup_findings_package)
      then have "\<forall>f \<in> set (yarn_loop lib db None ?found lines). CHR ''@'' \<notin> set (package f)"
        by (intro Cons.IH) simp_all
      moreover have "yarn_step (Some p) l =
          Some (None, case quoted_version (strip l) of
                        None \<Rightarrow> None
                      | Some v \<Rightarrow> if v \<noteq> [] then Some (p, v) else None)"
        using v p yarn_step_other [OF False, of "Some p"]
        by (auto split: option.splits)
      ultimately show ?thesis
        using p(1) by simp
    next
      case v: False
      have "\<forall>f \<in> set (yarn_loop lib db current_package vulnerabilities lines).
          CHR ''@'' \<notin> set (package f)"
        using Cons.prems by (intro Cons.IH) simp_all
      moreover have "yarn_step current_package l = Some (current_package, None)"
      proof -
        have "(startswith (strip l) ''version'' \<and> nonempty current_package) = False"
          using v by simp
        then show ?thesis
          by (simp only: yarn_step_other [OF False] if_False)
      qed
      ultimately show ?thesis
        by simp
    qed
  qed
qed

lemma scoped_header_is_header:
  assumes "startswith line ''@''" and "endswith line '':''"
  shows "line \<noteq> []" and "\<not> startswith line ''#''" and "CHR ''@'' \<in> set line"
    and "takeWhile (\<lambda>c. c \<noteq> CHR ''@'') line = []"
  using assms(1) by (cases line; simp add: startswith_def)+

lemma yarn_pair_no_name: "yarn_pair [] body = []"
  by (simp add: yarn_pair_def split: option.splits)

lemma yarn_pair_nil: "yarn_pair name [] = []"
  by (simp add: yarn_pair_def)

lemma yarn_pair_at_most_one: "length (yarn_pair name body) \<le> 1"
  by (simp add: yarn_pair_def split: option.splits)

lemma yarn_pair_skip:
  "\<not> startswith (strip l) ''version'' \<Longrightarrow> yarn_pair name (l # body) = yarn_pair name body"
  by (simp add: yarn_pair_def)

lemma yarn_pair_first:
  "startswith (strip l) ''version'' \<Longrightarrow>
   yarn_pair name (l # body) =
     (case quoted_version (strip l) of
        None \<Rightarrow> []
      | Some v \<Rightarrow> if name \<noteq> [] \<and> v \<noteq> [] then [(name, v)] else [])"
  by (simp add: yarn_pair_def)

lemma yarn_loop_blocks:
  "yarn_loop lib db current_package vulnerabilities lines =
     vulnerabilities @
       concat (map (lookup_findings lib db)
         (yarn_pair (case current_package of None \<Rightarrow> [] | Some p \<Rightarrow> p)
            (takeWhile (\<lambda>x. \<not> yarn_header x) lines)
          @ concat (map yarn_block_pair (yarn_blocks lines))))"
proof (induction lines arbitrary: current_package vulnerabilities)
  case Nil
  then show ?case by (simp add: yarn_pair_nil)
next
  case (Cons l lines)
  show ?case
  proof (cases "yarn_header l")
    case True
    then show ?thesis
      by (simp add: yarn_step_header Cons.IH yarn_block_pair_def yarn_pair_nil)
  next
    case False
    show ?thesis
    proof (cases "startswith (strip l) ''version''")
      case v: True
      show ?thesis
      proof (cases current_package)
        case None
        have "yarn_step None l = Some (None, None)"
          using v yarn_step_other [OF False, of None] by (simp add: nonempty_def)
        then show ?thesis
          using None False by (simp add: Cons.IH yarn_pair_no_name)
      next
        case (Some p)
        show ?thesis
        proof (cases "p = []")
          case True
          have "yarn_step (Some []) l = Some (Some [], None)"
            using yarn_step_other [OF False, of "Some []"] by (simp add: nonempty_def)
          then show ?thesis
            using Some True False by (simp add: Cons.IH yarn_pair_no_name)
        next
          case p: False
          have "yarn_step (Some p) l =
              Some (None, case quoted_version (strip l) of
                            None \<Rightarrow> None
                          | Some v \<Rightarrow> if v \<noteq> [] then Some (p, v) else None)"
            using v p yarn_step_other [OF False, of "Some p"]
            by (auto simp: nonempty_def split: option.splits)
          then show ?thesis
            using Some False p
            by (auto simp: Cons.IH yarn_pair_no_name yarn_pair_first [OF v] split: option.splits)
        qed
      qed
    next
      case v: False
      have "(startswith (strip l) ''version'' \<and> nonempty current_package) = False"
        using v by simp
      then have "yarn_step current_package l = Some (current_package, None)"
        by (simp only: yarn_step_other [OF False] if_False)
      then show ?thesis
        using False by (simp add: Cons.IH yarn_pair_skip [OF v])
    qed
  qed
qed

text \<open>
  C6: for every yarn.lock content, the scan is the two-state scan of the
  specification. The lines are cut into blocks at the header lines (non-comment lines
  ending in \<open>:\<close> and containing \<open>@\<close>); the lines before the first header yield nothing;
  each block yields at most one (name, version) pair, the name being the text of its
  header before the first \<open>@\<close> and the version the quoted string of its first line
  beginning with \<open>version\<close>; and the findings of the scan are the catalog lookups of
  these pairs, block after block.
\<close>

theorem yarn_two_state_scan:
  "scan_yarn_lock lib db content =
     concat (map (lookup_findings lib db)
       (concat (map yarn_block_pair (yarn_blocks (splitlines content)))))
   \<and> length (yarn_block_pair (header_line, body)) \<le> 1"
proof
  show "scan_yarn_lock lib db content =
     concat (map (lookup_findings lib db)
       (concat (map yarn_block_pair (yarn_blocks (splitlines content)))))"
    by (simp add: scan_yarn_lock_def yarn_loop_blocks yarn_pair_no_name)
  show "length (yarn_block_pair (header_line, body)) \<le> 1"
    unfolding yarn_block_pair_def prod.case by (rule yarn_pair_at_most_one)
qed

theorem yarn_two_state_scan_witness:
  "scan_yarn_lock spec_semver (map_of builtin_cves) two_blocks_text
   = [\<lparr>package = ''ws'', version = ''8.17.0'', clean_version = ''8.17.0'',
          severity = ''HIGH'', cve_id = Some ''CVE-2024-37890'',
          description = Some ''Resource exhaustion / unhandled exception'',
          vulnerable_range = ''>=8.0.0 <8.17.1''\<rparr>,
       \<lparr>package = ''lodash'', version = ''4.17.20'', clean_version = ''4.17.20'',
          severity = ''HIGH'', cve_id = Some ''CVE-2021-23337'',
          description = Some ''Command injection via template function'',
          vulnerable_range = ''<4.17.21''\<rparr>]"
proof -
  have "concat (map (lookup_findings spec_semver (map_of builtin_cves))
       (concat (map yarn_block_pair (yarn_blocks (splitlines two_blocks_text)))))
    = [\<lparr>package = ''ws'', version = ''8.17.0'', clean_version = ''8.17.0'',
          severity = ''HIGH'', cve_id = Some ''CVE-2024-37890'',
          description = Some ''Resource exhaustion / unhandled exception'',
          vulnerable_range = ''>=8.0.0 <8.17.1''\<rparr>,
       \<lparr>package = ''lodash'', version = ''4.17.20'', clean_version = ''4.17.20'',
          severity = ''HIGH'', cve_id = Some ''CVE-2021-23337'',
          description = Some ''Command injection via template function'',
          vulnerable_range = ''<4.17.21''\<rparr>]"
    by code_simp
  then show ?thesis
    by (simp only: yarn_two_state_scan [THEN conjunct1])
qed

text \<open>
  C10: a header line that begins with \<open>@\<close> gives the empty package name; no line of
  its block is looked up, and no finding of a yarn.lock scan ever names a package with
  an \<open>@\<close> in it, so a scoped package is never reported.
\<close>

theorem yarn_scoped_never_reported:
  assumes "startswith (strip header_line) ''@''" and "endswith (strip header_line) '':''"
    and "\<forall>l \<in> set body. \<not> yarn_header l"
  shows "yarn_step current_package header_line = Some (Some [], None)
    \<and> yarn_loop lib db current_package vulnerabilities (header_line # body) = vulnerabilities
    \<and> (\<forall>f \<in> set (scan_yarn_lock lib db content). CHR ''@'' \<notin> set (package f))"
proof -
  note s = scoped_header_is_header [OF assms(1,2)]
  have h: "yarn_header header_line"
    using s assms(2) by (simp add: yarn_header_def)
  have step: "yarn_step current_package header_line = Some (Some [], None)"
    using yarn_step_header [OF h] s(4) by simp
  have "yarn_loop lib db (Some []) vulnerabilities body = vulnerabilities"
    using assms(3) by (intro yarn_loop_idle) (simp_all add: nonempty_def)
  with step have loop:
    "yarn_loop lib db current_package vulnerabilities (header_line # body) = vulnerabilities"
    by simp
  have "\<forall>f \<in> set (yarn_loop lib db None [] (splitlines content)). CHR ''@'' \<notin> set (package f)"
    by (rule yarn_loop_packages) simp_all
  with step loop show ?thesis
    by (simp add: scan_yarn_lock_def)
qed

theorem yarn_scoped_never_reported_witness:
  \<open>startswith (strip ''@scope/ws@^8.0.0:'') ''@''
   \<and> endswith (strip ''@scope/ws@^8.0.0:'') '':''
   \<and> list_all (\<lambda>l. \<not> yarn_header l) [''  version "8.17.0"'']
   \<and> yarn_step None ''@scope/ws@^8.0.0:'' = Some (Some [], None)
   \<and> yarn_loop spec_semver [''@scope/ws'' \<mapsto> [cve_rule ''<9.0.0'' ''HIGH'' ''X'' ''Y'']] None []
         [''@scope/ws@^8.0.0:'', ''  version "8.17.0"''] = []\<close>
proof -
  have a: "startswith (strip ''@scope/ws@^8.0.0:'') ''@''"
    by code_simp
  have c: "endswith (strip ''@scope/ws@^8.0.0:'') '':''"
    by code_simp
  have l: \<open>list_all (\<lambda>l. \<not> yarn_header l) [''  version "8.17.0"'']\<close>
    by code_simp
  have b: \<open>\<forall>l \<in> set [''  version "8.17.0"'']. \<not> yarn_header l\<close>
    using l by (simp only: list_all_iff)
  show ?thesis
    using a c l yarn_scoped_never_reported [OF a c b, of None spec_semver
        "[''@scope/ws'' \<mapsto> [cve_rule ''<9.0.0'' ''HIGH'' ''X'' ''Y'']]" "[]"]
    by (simp only: simp_thms)
qed

subsection \<open>The pnpm-lock.yaml scan\<close>

lemma split_on_two_parts:
  assumes "c \<in> set s"
  shows "\<exists>rest. split_on c s =
     takeWhile (\<lambda>x. x \<noteq> c) s
       # takeWhile (\<lambda>x. x \<noteq> c) (tl (dropWhile (\<lambda>x. x \<noteq> c) s)) # rest"
proof -
  let ?t = "tl (dropWhile (\<lambda>x. x \<noteq> c) s)"
  obtain rest where r: "split_on c ?t = takeWhile (\<lambda>x. x \<noteq> c) ?t # rest"
    using split_on_unfold [of c ?t] by blast
  have "split_on c s = takeWhile (\<lambda>x. x \<noteq> c) s # split_on c ?t"
    using assms split_on_unfold [of c s] by simp
  with r show ?thesis by simp
qed

lemma takeWhile_absent: "c \<notin> set s \<Longrightarrow> takeWhile (\<lambda>x. x \<noteq> c) s = s"
  by (induction s) auto

lemma pnpm_package_entry: "pnpm_package line = Some (pnpm_entry line)"
proof (cases "CHR ''@'' \<in> set (lstrip_chars ''/'' (strip line))")
  case True
  let ?pl = "lstrip_chars ''/'' (strip line)"
  let ?second = "takeWhile (\<lambda>x. x \<noteq> CHR ''@'') (tl (dropWhile (\<lambda>x. x \<noteq> CHR ''@'') ?pl))"
  obtain rest where r: "split_on CHR ''@'' ?pl
      = takeWhile (\<lambda>x. x \<noteq> CHR ''@'') ?pl # ?second # rest"
    using split_on_two_parts [OF True] by blast
  show ?thesis
  proof (cases "CHR '':'' \<in> set ?second")
    case c: True
    show ?thesis
      using True c by (simp add: pnpm_package_def pnpm_entry_def Let_def r item_split_on_0)
  next
    case c: False
    show ?thesis
      using True c
      by (simp add: pnpm_package_def pnpm_entry_def Let_def r takeWhile_absent [OF c])
  qed
next
  case False
  then show ?thesis by (simp add: pnpm_package_def pnpm_entry_def Let_def)
qed

lemma strip_keeps_first:
  assumes "\<not> is_space x"
  shows "strip (x # xs) = x # rev (dropWhile is_space (rev xs))"
  using assms by (simp add: strip_def dropWhile_append)

lemma entry_line_is_no_marker:
  assumes "startswith line ''  /''"
  shows "strip line \<noteq> ''packages:''"
proof -
  obtain rest where l: "line = CHR '' '' # CHR '' '' # CHR ''/'' # rest"
    using assms by (cases line rule: list.exhaust; simp add: startswith_def)
      (metis (no_types, opaque_lifting) append_Cons append_Nil append_take_drop_id)
  have "strip line = strip (CHR ''/'' # rest)"
    unfolding l by (simp add: strip_def is_space_def)
  also have "\<dots> = CHR ''/'' # rev (dropWhile is_space (rev rest))"
    by (rule strip_keeps_first) (simp add: is_space_def)
  finally show ?thesis by simp
qed

lemma pnpm_loop_in_section:
  "pnpm_loop lib db True vulnerabilities lines
     = vulnerabilities @ concat (map (pnpm_line_findings lib db) lines)"
proof (induction lines arbitrary: vulnerabilities)
  case Nil
  then show ?case by simp
next
  case (Cons l lines)
  show ?case
  proof (cases "strip l = ''packages:''")
    case True
    then have "\<not> startswith l ''  /''"
      using entry_line_is_no_marker by blast
    with True show ?thesis
      by (simp add: Cons.IH pnpm_line_findings_def)
  next
    case False
    then show ?thesis
      by (simp add: Cons.IH pnpm_line_findings_def pnpm_package_entry)
  qed
qed

lemma pnpm_loop_before_section:
  "pnpm_loop lib db False vulnerabilities lines =
     vulnerabilities @
       (case dropWhile (\<lambda>l. strip l \<noteq> ''packages:'') lines of
          [] \<Rightarrow> []
        | marker # following \<Rightarrow> concat (map (pnpm_line_findings lib db) following))"
  by (induction lines) (simp_all add: pnpm_loop_in_section)

text \<open>
  The claim C9 as written fails in two ways. A \<open>packages:\<close> line that is indented,
  so not a top-level key, opens the section as well; and the section is never left, so
  a matching line under a later top-level key is parsed too.
\<close>

theorem pnpm_outside_block_counterexample:
  "scan_pnpm_lock spec_semver (map_of builtin_cves)
     ''importers:\<newline>  packages:\<newline>  /lodash@4.17.20:\<newline>''
   = [\<lparr>package = ''lodash'', version = ''4.17.20'', clean_version = ''4.17.20'',
          severity = ''HIGH'', cve_id = Some ''CVE-2021-23337'',
          description = Some ''Command injection via template function'',
          vulnerable_range = ''<4.17.21''\<rparr>]
   \<and> scan_pnpm_lock spec_semver (map_of builtin_cves)
     ''packages:\<newline>  /ws@8.17.1:\<newline>snapshots:\<newline>  /lodash@4.17.20:\<newline>''
   = [\<lparr>package = ''lodash'', version = ''4.17.20'', clean_version = ''4.17.20'',
          severity = ''HIGH'', cve_id = Some ''CVE-2021-23337'',
          description = Some ''Command injection via template function'',
          vulnerable_range = ''<4.17.21''\<rparr>]"
  by code_simp

text \<open>
  C9, as the code has it: the lines up to and including the first line whose stripped
  text is \<open>packages:\<close> contribute nothing; each later line contributes the lookup of
  its \<open>name@version\<close> entry if it begins with two spaces and \<open>/\<close>, and nothing
  otherwise.
\<close>

theorem pnpm_lines_after_marker_only:
  "scan_pnpm_lock lib db content =
     (case dropWhile (\<lambda>l. strip l \<noteq> ''packages:'') (splitlines content) of
        [] \<Rightarrow> []
      | marker # following \<Rightarrow> concat (map (pnpm_line_findings lib db) following))"
  by (simp add: scan_pnpm_lock_def pnpm_loop_before_section)

theorem pnpm_lines_after_marker_only_witness:
  "scan_pnpm_lock spec_semver (map_of builtin_cves)
     ''lockfileVersion: 5.4\<newline>  /tar@4.4.0:\<newline>packages:\<newline>  /lodash@4.17.20:\<newline>    dev: false\<newline>''
   = [\<lparr>package = ''lodash'', version = ''4.17.20'', clean_version = ''4.17.20'',
          severity = ''HIGH'', cve_id = Some ''CVE-2021-23337'',
          description = Some ''Command injection via template function'',
          vulnerable_range = ''<4.17.21''\<rparr>]"
proof -
  have "(case dropWhile (\<lambda>l. strip l \<noteq> ''packages:'')
        (splitlines ''lockfileVersion: 5.4\<newline>  /tar@4.4.0:\<newline>packages:\<newline>  /lodash@4.17.20:\<newline>    dev: false\<newline>'') of
      [] \<Rightarrow> []
    | marker # following \<Rightarrow>
        concat (map (pnpm_line_findings spec_semver (map_of builtin_cves)) following))
    = [\<lparr>package = ''lodash'', version = ''4.17.20'', clean_version = ''4.17.20'',
          severity = ''HIGH'', cve_id = Some ''CVE-2021-23337'',
          description = Some ''Command injection via template function'',
          vulnerable_range = ''<4.17.21''\<rparr>]"
    by code_simp
  then show ?thesis
    by (simp only: pnpm_lines_after_marker_only)
qed

subsection \<open>The retrying request helper\<close>

lemma retry_loop_trace:
  "retry_loop retries outcomes trace attempts =
     (let tried = takeWhile (\<lambda>k. \<not> final_outcome (outcomes k)) attempts
      in (case drop (length tried) attempts of
            [] \<Rightarrow> None
          | k # later \<Rightarrow> if outcomes k = Response 200 then Some (Response 200) else None,
          trace @ concat (map (attempt_events retries outcomes)
                            (take (Suc (length tried)) attempts))))"
proof (induction attempts arbitrary: trace)
  case Nil
  then show ?case by simp
next
  case (Cons attempt attempts)
  show ?case
  proof (cases "outcomes attempt")
    case (Response status_code)
    then show ?thesis
      by (simp add: Cons.IH Let_def final_outcome_def attempt_events_def pause_after_def)
  next
    case RequestException
    have "int attempt < int retries - 1 \<longleftrightarrow> Suc attempt < retries" by linarith
    with RequestException show ?thesis
      by (simp add: Cons.IH Let_def final_outcome_def attempt_events_def pause_after_def)
  qed
qed

lemma takeWhile_upt_prefix:
  "\<exists>n \<le> m. takeWhile P [0..<m] = [0..<n]"
proof (induction m)
  case 0
  then show ?case by simp
next
  case (Suc m)
  then obtain n where n: "n \<le> m" "takeWhile P [0..<m] = [0..<n]" by blast
  show ?case
  proof (cases "\<forall>x \<in> set [0..<m]. P x")
    case True
    then have "takeWhile P ([0..<m] @ [m]) = [0..<m] @ takeWhile P [m]"
      by (intro takeWhile_append2) simp
    then have "takeWhile P [0..<Suc m] = (if P m then [0..<Suc m] else [0..<m])"
      by simp
    then show ?thesis
      by (cases "P m") (auto intro: exI [of _ "Suc m"] exI [of _ m])
  next
    case False
    then obtain x where "x \<in> set [0..<m]" "\<not> P x" by blast
    then have "takeWhile P ([0..<m] @ [m]) = takeWhile P [0..<m]"
      by (intro takeWhile_append1) simp_all
    with n show ?thesis
      by (intro exI [of _ n]) simp
  qed
qed

text \<open>
  The claim C8 as written fails in two ways. After a 403 the loop goes on to the next
  attempt, so the 403 uses up one of the attempts: with one attempt allowed, a 403 ends
  the call although the next request would succeed. And a failing status other than
  401 and 403 is followed by no back-off pause: only a raised exception is.
\<close>

theorem retry_budget_counterexample:
  "make_request_with_retry 1 (outcomes_of [Response 403, Response 200])
      = (None, [SleepRateLimitDelay, Get 0, SleepSeconds 60])
   \<and> make_request_with_retry 3 (outcomes_of [Response 500, Response 500, Response 500])
      = (None, [SleepRateLimitDelay, Get 0, SleepRateLimitDelay, Get 1,
                SleepRateLimitDelay, Get 2])"
  by code_simp

text \<open>
  C8, as the code has it: the attempts \<open>0, 1, \<dots>\<close> are made in turn, at most
  \<open>retries\<close> of them, up to and including the first whose outcome is status 200 or
  status 401. Each attempt is the configured delay and one request, followed by 60
  seconds after a 403, by \<open>2 ^ attempt\<close> seconds after an exception that is not in the
  last attempt, and by nothing otherwise. The response is returned if that first final
  outcome is status 200, and nothing is returned in every other case.
\<close>

theorem retry_trace:
  "make_request_with_retry retries outcomes =
     (let n = length (takeWhile (\<lambda>k. \<not> final_outcome (outcomes k)) [0..<retries])
      in (if n < retries \<and> outcomes n = Response 200 then Some (Response 200) else None,
          concat (map (attempt_events retries outcomes) [0..<min retries (Suc n)])))"
proof -
  let ?tried = "takeWhile (\<lambda>k. \<not> final_outcome (outcomes k)) [0..<retries]"
  obtain n where n: "n \<le> retries" "?tried = [0..<n]"
    using takeWhile_upt_prefix by blast
  have len: "length ?tried = n" using n by simp
  have d: "drop n [0..<retries] = [n..<retries]" by simp
  have t: "take (Suc n) [0..<retries] = [0..<min retries (Suc n)]"
    by (simp add: take_upt min_def) 
  show ?thesis
  proof (cases "n < retries")
    case True
    then have "[n..<retries] = n # [Suc n..<retries]" by (simp add: upt_conv_Cons)
    with True show ?thesis
      unfolding make_request_with_retry_def retry_loop_trace Let_def len d t by simp
  next
    case False
    with n have "[n..<retries] = []" by simp
    with False show ?thesis
      unfolding make_request_with_retry_def retry_loop_trace Let_def len d t by simp
  qed
qed

theorem retry_trace_witness:
  "make_request_with_retry 4
     (outcomes_of [Response 403, RequestException, Response 500, Response 401, Response 200])
   = (None,
      [SleepRateLimitDelay, Get 0, SleepSeconds 60,
       SleepRateLimitDelay, Get 1, SleepSeconds 2,
       SleepRateLimitDelay, Get 2,
       SleepRateLimitDelay, Get 3])"
proof -
  let ?outcomes =
    "outcomes_of [Response 403, RequestException, Response 500, Response 401, Response 200]"
  have "(let n = length (takeWhile (\<lambda>k. \<not> final_outcome (?outcomes k)) [0..<4])
      in (if n < 4 \<and> ?outcomes n = Response 200 then Some (Response 200) else None,
          concat (map (attempt_events 4 ?outcomes) [0..<min 4 (Suc n)])))
    = (None,
      [SleepRateLimitDelay, Get 0, SleepSeconds 60,
       SleepRateLimitDelay, Get 1, SleepSeconds 2,
       SleepRateLimitDelay, Get 2,
       SleepRateLimitDelay, Get 3])"
    by code_simp
  then show ?thesis
    by (simp only: retry_trace)
qed

subsection \<open>The built-in catalog and the end-to-end scan\<close>

lemma add_malicious_row_other:
  "strip (fst row) \<noteq> k \<Longrightarrow> add_malicious_row m row k = m k"
  by (cases row) (simp add: add_malicious_row_def Let_def)

lemma load_shai_hulud_other:
  "list_all (\<lambda>row. strip (fst row) \<noteq> k) rows \<Longrightarrow>
   load_shai_hulud_malicious_packages rows m k = m k"
  unfolding load_shai_hulud_malicious_packages_def
  by (induction rows arbitrary: m) (simp_all add: add_malicious_row_other)

lemma csv_rows_0_not_lodash: "list_all (\<lambda>row. strip (fst row) \<noteq> ''lodash'') csv_rows_0"
  by code_simp

lemma csv_rows_1_not_lodash: "list_all (\<lambda>row. strip (fst row) \<noteq> ''lodash'') csv_rows_1"
  by code_simp

lemma csv_rows_2_not_lodash: "list_all (\<lambda>row. strip (fst row) \<noteq> ''lodash'') csv_rows_2"
  by code_simp

lemma csv_rows_3_not_lodash: "list_all (\<lambda>row. strip (fst row) \<noteq> ''lodash'') csv_rows_3"
  by code_simp

lemma csv_rows_4_not_lodash: "list_all (\<lambda>row. strip (fst row) \<noteq> ''lodash'') csv_rows_4"
  by code_simp

lemma csv_rows_5_not_lodash: "list_all (\<lambda>row. strip (fst row) \<noteq> ''lodash'') csv_rows_5"
  by code_simp

lemma csv_rows_6_not_lodash: "list_all (\<lambda>row. strip (fst row) \<noteq> ''lodash'') csv_rows_6"
  by code_simp

lemma csv_rows_7_not_lodash: "list_all (\<lambda>row. strip (fst row) \<noteq> ''lodash'') csv_rows_7"
  by code_simp

lemma csv_rows_8_not_lodash: "list_all (\<lambda>row. strip (fst row) \<noteq> ''lodash'') csv_rows_8"
  by code_simp

lemma csv_rows_9_not_lodash: "list_all (\<lambda>row. strip (fst row) \<noteq> ''lodash'') csv_rows_9"
  by code_simp

lemma csv_rows_10_not_lodash: "list_all (\<lambda>row. strip (fst row) \<noteq> ''lodash'') csv_rows_10"
  by code_simp

lemma csv_rows_11_not_lodash: "list_all (\<lambda>row. strip (fst row) \<noteq> ''lodash'') csv_rows_11"
  by code_simp

lemma csv_rows_12_not_lodash: "list_all (\<lambda>row. strip (fst row) \<noteq> ''lodash'') csv_rows_12"
  by code_simp

lemma csv_rows_13_not_lodash: "list_all (\<lambda>row. strip (fst row) \<noteq> ''lodash'') csv_rows_13"
  by code_simp

lemma csv_rows_14_not_lodash: "list_all (\<lambda>row. strip (fst row) \<noteq> ''lodash'') csv_rows_14"
  by code_simp

lemma csv_rows_15_not_lodash: "list_all (\<lambda>row. strip (fst row) \<noteq> ''lodash'') csv_rows_15"
  by code_simp

lemma csv_rows_16_not_lodash: "list_all (\<lambda>row. strip (fst row) \<noteq> ''lodash'') csv_rows_16"
  by code_simp

lemma csv_rows_17_not_lodash: "list_all (\<lambda>row. strip (fst row) \<noteq> ''lodash'') csv_rows_17"
  by code_simp

lemma csv_rows_18_not_lodash: "list_all (\<lambda>row. strip (fst row) \<noteq> ''lodash'') csv_rows_18"
  by code_simp

lemma csv_rows_19_not_lodash: "list_all (\<lambda>row. strip (fst row) \<noteq> ''lodash'') csv_rows_19"
  by code_simp

lemma csv_not_lodash: "list_all (\<lambda>row. strip (fst row) \<noteq> ''lodash'') SHAI_HULUD_CSV"
  unfolding SHAI_HULUD_CSV_def list_all_append
  by (intro conjI csv_rows_0_not_lodash csv_rows_1_not_lodash csv_rows_2_not_lodash csv_rows_3_not_lodash csv_rows_4_not_lodash csv_rows_5_not_lodash csv_rows_6_not_lodash csv_rows_7_not_lodash csv_rows_8_not_lodash csv_rows_9_not_lodash csv_rows_10_not_lodash csv_rows_11_not_lodash csv_rows_12_not_lodash csv_rows_13_not_lodash csv_rows_14_not_lodash csv_rows_15_not_lodash csv_rows_16_not_lodash csv_rows_17_not_lodash csv_rows_18_not_lodash csv_rows_19_not_lodash)

lemma builtin_lodash:
  "load_builtin_vulnerabilities ''lodash'' =
     Some [cve_rule ''<4.17.21'' ''HIGH'' ''CVE-2021-23337''
             ''Command injection via template function'']"
  by (simp add: load_builtin_vulnerabilities_def load_shai_hulud_other [OF csv_not_lodash]
      builtin_cves_def)

text \<open>
  C5: on the built-in catalog, the manifest \<open>{"dependencies": {"lodash": "4.17.20"}}\<close>,
  scanned as \<open>package.json\<close>, gives exactly one finding: lodash, matched against
  \<open><4.17.21\<close>, severity HIGH.
\<close>

theorem end_to_end_lodash:
  assumes "json_loads py content
      = Some (JObj [(''dependencies'', JObj [(''lodash'', JStr ''4.17.20'')])])"
  shows "scan_dependency_file py spec_semver load_builtin_vulnerabilities content ''package.json''
      = [\<lparr>package = ''lodash'', version = ''4.17.20'', clean_version = ''4.17.20'',
          severity = ''HIGH'', cve_id = Some ''CVE-2021-23337'',
          description = Some ''Command injection via template function'',
          vulnerable_range = ''<4.17.21''\<rparr>]"
proof -
  have m: "merge_dependencies [(''dependencies'', JObj [(''lodash'', JStr ''4.17.20'')])]
      = Some [(JStr ''lodash'', JStr ''4.17.20'')]"
    by code_simp
  have c: "clean ''4.17.20'' = ''4.17.20''"
    by code_simp
  have r: "is_version_in_range spec_semver ''4.17.20'' ''<4.17.21''"
    by code_simp
  have v: "is_vulnerable spec_semver load_builtin_vulnerabilities ''lodash'' ''4.17.20''
      = [cve_rule ''<4.17.21'' ''HIGH'' ''CVE-2021-23337''
           ''Command injection via template function'']"
    using r by (simp add: is_vulnerable_def builtin_lodash cve_rule_def)
  show ?thesis
    by (simp add: scan_dependency_file_def scan_json_dependencies_def assms m c v
        make_finding_def cve_rule_def)
qed

theorem end_to_end_lodash_witness:
  \<open>\<forall>str_fn.
     json_loads (python_with str_fn) ''{"dependencies": {"lodash": "4.17.20"}}''
       = Some (JObj [(''dependencies'', JObj [(''lodash'', JStr ''4.17.20'')])])
     \<and> scan_dependency_file (python_with str_fn) spec_semver load_builtin_vulnerabilities
           ''{"dependencies": {"lodash": "4.17.20"}}'' ''package.json''
       = [\<lparr>package = ''lodash'', version = ''4.17.20'', clean_version = ''4.17.20'',
            severity = ''HIGH'', cve_id = Some ''CVE-2021-23337'',
            description = Some ''Command injection via template function'',
            vulnerable_range = ''<4.17.21''\<rparr>]\<close>
proof
  fix str_fn
  have d: \<open>json_decode ''{"dependencies": {"lodash": "4.17.20"}}''
      = Some (JObj [(''dependencies'', JObj [(''lodash'', JStr ''4.17.20'')])])\<close>
    by code_simp
  have h: \<open>json_loads (python_with str_fn) ''{"dependencies": {"lodash": "4.17.20"}}''
      = Some (JObj [(''dependencies'', JObj [(''lodash'', JStr ''4.17.20'')])])\<close>
    by (simp add: python_with_def d)
  show \<open>json_loads (python_with str_fn) ''{"dependencies": {"lodash": "4.17.20"}}''
       = Some (JObj [(''dependencies'', JObj [(''lodash'', JStr ''4.17.20'')])])
     \<and> scan_dependency_file (python_with str_fn) spec_semver load_builtin_vulnerabilities
           ''{"dependencies": {"lodash": "4.17.20"}}'' ''package.json''
       = [\<lparr>package = ''lodash'', version = ''4.17.20'', clean_version = ''4.17.20'',
            severity = ''HIGH'', cve_id = Some ''CVE-2021-23337'',
            description = Some ''Command injection via template function'',
            vulnerable_range = ''<4.17.21''\<rparr>]\<close>
    using h end_to_end_lodash [OF h] by simp
qed

end
